theory Spec2Isabelle
  imports Main
begin

section \<open>The table \<open>turnos\<close>\<close>

text \<open>
  The service keeps one PostgreSQL table, created by \<open>initDatabase\<close>:
  \<^verbatim>\<open>id SERIAL PRIMARY KEY, id_usuario VARCHAR(255) UNIQUE NOT NULL,
  nombre VARCHAR(255) NOT NULL, solicitud TEXT NOT NULL, ticket VARCHAR(50) NOT NULL,
  fecha TIMESTAMP DEFAULT CURRENT_TIMESTAMP\<close>.
  A row is a record; the column \<open>id\<close> is called \<open>id_pk\<close> here, since \<open>id\<close> is the identity
  function of HOL. Time stamps are points of an abstract clock. A string is the list of its
  characters, one \<open>char\<close> each.

  The database is the list of rows (in insertion order) together with the last value handed
  out by the sequence behind the \<open>SERIAL\<close> column. There is no \<open>UNIQUE\<close> constraint on
  \<open>ticket\<close>.
\<close>

record turno =
  id_pk :: int
  id_usuario :: string
  nombre :: string
  solicitud :: string
  ticket :: string
  fecha :: nat

record database =
  turnos :: "turno list"
  turnos_id_seq :: int

text \<open>
  The ways the database rejects a statement of the service: a duplicate key (with the name
  of the constraint), a string too long for its \<open>VARCHAR\<close>, a string with the character
  NUL, a sequence that has reached its last value, and a text that is no \<open>integer\<close>.
\<close>

datatype pg_error =
  unique_violation string
| string_data_right_truncation
| character_not_in_repertoire
| sequence_generator_limit_exceeded
| invalid_text_representation

text \<open>A text the database accepts as a value: no character NUL in it.\<close>

definition texto :: "string \<Rightarrow> bool" where
  "texto s \<longleftrightarrow> CHR 0x00 \<notin> set s"

text \<open>
  Storing a string in a \<open>VARCHAR(n)\<close> column: a longer string is an error, unless all the
  characters beyond the \<open>n\<close>-th are spaces, which are cut off.
\<close>

definition varchar :: "nat \<Rightarrow> string \<Rightarrow> pg_error + string" where
  "varchar n s =
     (if length s \<le> n then Inr s
      else if list_all (\<lambda>c. c = CHR '' '') (drop n s) then Inr (take n s)
      else Inl string_data_right_truncation)"

text \<open>
  The route parameter \<open>:id\<close> is a string, bound to a parameter that the database reads as
  an \<open>integer\<close> (32 bits). How it reads a text is not code of the service: the handlers
  take that reading as a parameter, \<open>None\<close> when the database rejects the text.
\<close>

type_synonym int4in = "string \<Rightarrow> int option"

text \<open>\<^verbatim>\<open>SELECT * FROM turnos WHERE id_usuario = $1\<close>\<close>

definition select_by_id_usuario :: "database \<Rightarrow> string \<Rightarrow> turno list" where
  "select_by_id_usuario db u = filter (\<lambda>t. id_usuario t = u) (turnos db)"

text \<open>\<^verbatim>\<open>SELECT * FROM turnos WHERE id = $1\<close>\<close>

definition select_by_id :: "int4in \<Rightarrow> database \<Rightarrow> string \<Rightarrow> pg_error + turno list" where
  "select_by_id int4 db idtxt =
     (case int4 idtxt of
        None \<Rightarrow> Inl invalid_text_representation
      | Some i \<Rightarrow> Inr (filter (\<lambda>t. id_pk t = i) (turnos db)))"

text \<open>\<^verbatim>\<open>SELECT COUNT(*) as total FROM turnos\<close>\<close>

definition select_count :: "database \<Rightarrow> nat" where
  "select_count db = length (turnos db)"

text \<open>\<^verbatim>\<open>SELECT * FROM turnos ORDER BY id DESC\<close>\<close>

definition select_all_desc :: "database \<Rightarrow> turno list" where
  "select_all_desc db = rev (sort_key id_pk (turnos db))"

text \<open>
  \<^verbatim>\<open>INSERT INTO turnos (id_usuario, nombre, solicitud, ticket, fecha)
  VALUES ($1, $2, $3, $4, NOW()) RETURNING *\<close>.
  The parameters are checked first, as texts and against the widths of their columns; a
  statement rejected there leaves the sequence alone. Then the default of \<open>id\<close> takes the
  next value of the sequence, whose last value is 2147483647; the value stays consumed
  when the statement then fails on a constraint.
\<close>

definition insert_turno ::
  "database \<Rightarrow> string \<Rightarrow> string \<Rightarrow> string \<Rightarrow> string \<Rightarrow> nat \<Rightarrow> database \<times> (pg_error + turno list)"
where
  "insert_turno db u n s tk now =
     (if \<not> (texto u \<and> texto n \<and> texto s \<and> texto tk)
      then (db, Inl character_not_in_repertoire)
      else case varchar 255 u of Inl e \<Rightarrow> (db, Inl e) | Inr u' \<Rightarrow>
           case varchar 255 n of Inl e \<Rightarrow> (db, Inl e) | Inr n' \<Rightarrow>
           case varchar 50 tk of Inl e \<Rightarrow> (db, Inl e) | Inr tk' \<Rightarrow>
        if 2147483647 \<le> turnos_id_seq db
        then (db, Inl sequence_generator_limit_exceeded)
        else
          let i = turnos_id_seq db + 1;
              db1 = db\<lparr>turnos_id_seq := i\<rparr>;
              t = \<lparr>id_pk = i, id_usuario = u', nombre = n', solicitud = s, ticket = tk',
                   fecha = now\<rparr>
          in if i \<in> set (map id_pk (turnos db))
               then (db1, Inl (unique_violation ''turnos_pkey''))
             else if u' \<in> set (map id_usuario (turnos db))
               then (db1, Inl (unique_violation ''turnos_id_usuario_key''))
             else (db1\<lparr>turnos := turnos db @ [t]\<rparr>, Inr [t]))"

text \<open>
  \<^verbatim>\<open>UPDATE turnos SET nombre = $1, solicitud = $2 WHERE id = $3 RETURNING *\<close>.
  The parameters are checked before any row is looked at.
\<close>

definition update_turno ::
  "int4in \<Rightarrow> database \<Rightarrow> string \<Rightarrow> string \<Rightarrow> string \<Rightarrow> database \<times> (pg_error + turno list)"
where
  "update_turno int4 db n s idtxt =
     (if \<not> (texto n \<and> texto s) then (db, Inl character_not_in_repertoire)
      else case int4 idtxt of None \<Rightarrow> (db, Inl invalid_text_representation) | Some i \<Rightarrow>
           case varchar 255 n of Inl e \<Rightarrow> (db, Inl e) | Inr n' \<Rightarrow>
        let set_cols = (\<lambda>t. t\<lparr>nombre := n', solicitud := s\<rparr>)
        in (db\<lparr>turnos := map (\<lambda>t. if id_pk t = i then set_cols t else t) (turnos db)\<rparr>,
            Inr (map set_cols (filter (\<lambda>t. id_pk t = i) (turnos db)))))"

text \<open>\<^verbatim>\<open>DELETE FROM turnos WHERE id = $1 RETURNING *\<close>\<close>

definition delete_turno :: "int4in \<Rightarrow> database \<Rightarrow> string \<Rightarrow> database \<times> (pg_error + turno list)" where
  "delete_turno int4 db idtxt =
     (case int4 idtxt of
        None \<Rightarrow> (db, Inl invalid_text_representation)
      | Some i \<Rightarrow>
          (db\<lparr>turnos := filter (\<lambda>t. id_pk t \<noteq> i) (turnos db)\<rparr>,
           Inr (filter (\<lambda>t. id_pk t = i) (turnos db))))"

section \<open>JavaScript strings\<close>

text \<open>\<open>String(n)\<close> for a non-negative integer: its decimal digits, most significant first.\<close>

definition digit_char :: "nat \<Rightarrow> char" where
  "digit_char d = ''0123456789'' ! d"

fun String_nat :: "nat \<Rightarrow> string" where
  "String_nat n =
     (if n < 10 then [digit_char n] else String_nat (n div 10) @ [digit_char (n mod 10)])"

declare String_nat.simps [simp del]

definition String_int :: "int \<Rightarrow> string" where
  "String_int i = (if i < 0 then CHR ''-'' # String_nat (nat (- i)) else String_nat (nat i))"

text \<open>\<open>s.padStart(w, c)\<close> with a one-character filler \<open>c\<close>.\<close>

definition padStart :: "nat \<Rightarrow> char \<Rightarrow> string \<Rightarrow> string" where
  "padStart w c s = (if w \<le> length s then s else replicate (w - length s) c @ s)"

section \<open>The ticket allocator\<close>

text \<open>
  \<^verbatim>\<open>const total = parseInt(result.rows[0].total);
  return `T-${String(total + 1).padStart(4, '0')}`;\<close>
\<close>

definition generarTicket :: "database \<Rightarrow> string" where
  "generarTicket db =
     (let total = select_count db
      in ''T-'' @ padStart 4 (CHR ''0'') (String_nat (total + 1)))"

section \<open>Requests and responses\<close>

text \<open>
  A request is one that has reached its handler: \<open>express.json()\<close> has parsed its body. It
  carries \<open>req.protocol\<close>, the \<open>Host\<close> header and the fields of the JSON body the
  handlers read. A field of the body is a string or absent (\<open>None\<close>, which also stands for
  \<open>null\<close>); \<open>!v\<close> holds of an absent field and of the empty string.
\<close>

record req =
  protocol :: string
  host :: string
  body_id_usuario :: "string option"
  body_nombre :: "string option"
  body_solicitud :: "string option"

definition falsy :: "string option \<Rightarrow> bool" where
  "falsy v = (case v of None \<Rightarrow> True | Some s \<Rightarrow> s = [])"

definition str :: "string option \<Rightarrow> string" where
  "str v = (case v of None \<Rightarrow> [] | Some s \<Rightarrow> s)"

text \<open>
  The JSON object sent by \<open>POST /turno\<close>:
  \<open>{ticket, nombre, solicitud, fecha, mensaje, pdf_url}\<close>.
\<close>

record asignado =
  r_ticket :: string
  r_nombre :: string
  r_solicitud :: string
  r_fecha :: nat
  r_mensaje :: string
  r_pdf_url :: string

text \<open>
  What a handler sends: \<open>{error}\<close>, the object of \<open>POST /turno\<close>, the array of
  \<open>GET /turnos\<close>, \<open>{mensaje, turno}\<close> of \<open>PUT\<close> and \<open>DELETE\<close>, or the PDF document drawn from
  one row, with its \<open>Content-Disposition\<close> header (the text of the document is
  \<open>comprobante\<close> below).
\<close>

datatype payload =
  Error string
| Asignado asignado
| Lista "turno list"
| Mensaje string turno
| Pdf string turno

record response =
  status :: nat
  payload :: payload

definition json :: "payload \<Rightarrow> response" where
  "json p = \<lparr>status = 200, payload = p\<rparr>"

definition status_json :: "nat \<Rightarrow> payload \<Rightarrow> response" where
  "status_json c p = \<lparr>status = c, payload = p\<rparr>"

section \<open>The handlers\<close>

text \<open>
  Every handler is one \<open>try\<close> block: a statement the database rejects throws, and the
  \<open>catch\<close> answers with status 500 and the message of that handler.
\<close>

subsection \<open>\<open>POST /turno\<close>\<close>

definition pdf_url :: "req \<Rightarrow> turno \<Rightarrow> string" where
  "pdf_url rq t = protocol rq @ ''://'' @ host rq @ ''/turno/'' @ String_int (id_pk t) @ ''/pdf''"

definition ya_asignado :: "req \<Rightarrow> turno \<Rightarrow> response" where
  "ya_asignado rq t =
     json (Asignado \<lparr>r_ticket = ticket t, r_nombre = nombre t, r_solicitud = solicitud t,
       r_fecha = fecha t, r_mensaje = ''Ya tienes un turno asignado: '' @ ticket t,
       r_pdf_url = pdf_url rq t\<rparr>)"

definition recien_asignado :: "req \<Rightarrow> turno \<Rightarrow> response" where
  "recien_asignado rq t =
     json (Asignado \<lparr>r_ticket = ticket t, r_nombre = nombre t, r_solicitud = solicitud t,
       r_fecha = fecha t,
       r_mensaje = ''Turno asignado correctamente a '' @ str (body_nombre rq),
       r_pdf_url = pdf_url rq t\<rparr>)"

text \<open>
  The handler awaits the database three times. Up to the first answer it validates the body
  and looks the user up: \<open>Some\<close> response when it is done there, \<open>None\<close> when it goes on to
  create a row.
\<close>

definition post_turno_consultar :: "req \<Rightarrow> database \<Rightarrow> response option" where
  "post_turno_consultar rq db =
     (if falsy (body_id_usuario rq) \<or> falsy (body_nombre rq) \<or> falsy (body_solicitud rq)
      then Some (status_json 400 (Error
        ''Faltan datos requeridos: id_usuario, nombre y solicitud son obligatorios''))
      else case select_by_id_usuario db (str (body_id_usuario rq)) of
             turno # _ \<Rightarrow> Some (ya_asignado rq turno)
           | [] \<Rightarrow> None)"

text \<open>The last part: the \<open>INSERT\<close> with the label computed before it.\<close>

definition post_turno_insertar :: "req \<Rightarrow> string \<Rightarrow> nat \<Rightarrow> database \<Rightarrow> database \<times> response" where
  "post_turno_insertar rq nuevoTicket now db =
     (case insert_turno db (str (body_id_usuario rq)) (str (body_nombre rq))
             (str (body_solicitud rq)) nuevoTicket now of
        (db', Inr (turno # _)) \<Rightarrow> (db', recien_asignado rq turno)
      | (db', _) \<Rightarrow> (db', status_json 500 (Error ''Error al procesar el turno'')))"

text \<open>The handler run without interruption: all three parts on the same database.\<close>

definition post_turno :: "req \<Rightarrow> nat \<Rightarrow> database \<Rightarrow> database \<times> response" where
  "post_turno rq now db =
     (case post_turno_consultar rq db of
        Some res \<Rightarrow> (db, res)
      | None \<Rightarrow> post_turno_insertar rq (generarTicket db) now db)"

subsection \<open>\<open>GET /turnos\<close>\<close>

definition get_turnos :: "database \<Rightarrow> database \<times> response" where
  "get_turnos db = (db, json (Lista (select_all_desc db)))"

subsection \<open>\<open>GET /turno/:id/pdf\<close>\<close>

definition get_turno_pdf :: "int4in \<Rightarrow> string \<Rightarrow> database \<Rightarrow> database \<times> response" where
  "get_turno_pdf int4 idtxt db =
     (case select_by_id int4 db idtxt of
        Inl _ \<Rightarrow> (db, status_json 500 (Error ''Error al generar PDF''))
      | Inr [] \<Rightarrow> (db, status_json 404 (Error ''Turno no encontrado''))
      | Inr (turno # _) \<Rightarrow>
          (db, \<lparr>status = 200,
                payload = Pdf (''attachment; filename=turno-'' @ ticket turno @ ''.pdf'') turno\<rparr>))"

subsection \<open>\<open>PUT /turno/:id\<close>\<close>

definition put_turno :: "int4in \<Rightarrow> string \<Rightarrow> req \<Rightarrow> database \<Rightarrow> database \<times> response" where
  "put_turno int4 idtxt rq db =
     (if falsy (body_nombre rq) \<or> falsy (body_solicitud rq)
      then (db, status_json 400 (Error ''Faltan datos: nombre y solicitud son obligatorios''))
      else case update_turno int4 db (str (body_nombre rq)) (str (body_solicitud rq)) idtxt of
             (db', Inl _) \<Rightarrow> (db', status_json 500 (Error ''Error al actualizar turno''))
           | (db', Inr []) \<Rightarrow> (db', status_json 404 (Error ''Turno no encontrado''))
           | (db', Inr (turno # _)) \<Rightarrow>
               (db', json (Mensaje ''Turno actualizado correctamente'' turno)))"

subsection \<open>\<open>DELETE /turno/:id\<close>\<close>

definition delete_turno_id :: "int4in \<Rightarrow> string \<Rightarrow> database \<Rightarrow> database \<times> response" where
  "delete_turno_id int4 idtxt db =
     (case delete_turno int4 db idtxt of
        (db', Inl _) \<Rightarrow> (db', status_json 500 (Error ''Error al eliminar turno''))
      | (db', Inr []) \<Rightarrow> (db', status_json 404 (Error ''Turno no encontrado''))
      | (db', Inr (turno # _)) \<Rightarrow>
          (db', json (Mensaje ''Turno eliminado correctamente'' turno)))"

subsection \<open>The text of the receipt\<close>

text \<open>
  Between \<open>doc.pipe(res)\<close> and \<open>doc.end()\<close> the handler of \<open>GET /turno/:id/pdf\<close> draws
  thirteen runs of text, in this order; a run drawn with \<open>continued: true\<close> is followed by
  the next run on the same line. \<open>fechaFormateada\<close> (the \<open>fecha\<close> of the row in the Spanish
  locale) and the time of the rendering are given, as strings. The ticket emoji of the
  title lies outside the characters of a \<open>char\<close> and is written as its four bytes in
  UTF-8.
\<close>

definition titulo :: string where
  "titulo = [CHR 0xF0, CHR 0x9F, CHR 0x8E, CHR 0xAB] @ '' COMPROBANTE DE TURNO''"

definition pie :: string where
  "pie = ''Este documento es un comprobante de turno. Gu'' @ [CHR 0xE1] @
         ''rdelo para futuras referencias.''"

definition comprobante :: "turno \<Rightarrow> string \<Rightarrow> string \<Rightarrow> (string \<times> bool) list" where
  "comprobante turno fechaFormateada generado =
     [(titulo, False),
      (''Sistema de Turnos ManyChat'', False),
      (''Ticket: '' @ ticket turno, False),
      (''Nombre:'', True), ('' '' @ nombre turno, False),
      (''ID Usuario:'', True), ('' '' @ id_usuario turno, False),
      (''Fecha y Hora:'', True), ('' '' @ fechaFormateada, False),
      (''Solicitud:'', False),
      (solicitud turno, False),
      (pie, False),
      (''Generado el '' @ generado, False)]"

text \<open>
  What the PDF library shows of these runs, as lines of text. A run that is continued and
  the runs after it, up to the first that is not, make one paragraph. A paragraph is broken
  at every line feed it contains. How the library then lays one such piece out on the page
  (it wraps a piece wider than the page) is not code of the service: \<open>wrap\<close> is a
  parameter, the lines the library draws for one piece.
\<close>

fun parrafos :: "(string \<times> bool) list \<Rightarrow> string list" where
  "parrafos [] = []"
| "parrafos ((s, continued) # rs) =
     (if continued
      then (case parrafos rs of [] \<Rightarrow> [s] | p # ps \<Rightarrow> (s @ p) # ps)
      else s # parrafos rs)"

fun split_lf :: "string \<Rightarrow> string list" where
  "split_lf [] = [[]]"
| "split_lf (c # cs) =
     (if c = CHR 0x0A then [] # split_lf cs
      else (case split_lf cs of [] \<Rightarrow> [[c]] | l # ls \<Rightarrow> (c # l) # ls))"

definition lineas :: "(string \<Rightarrow> string list) \<Rightarrow> (string \<times> bool) list \<Rightarrow> string list" where
  "lineas wrap rs = concat (map wrap (concat (map split_lf (parrafos rs))))"

section \<open>Sequences of requests\<close>

text \<open>
  The service handling one request after the other, each to its end before the next
  starts. A \<open>POST\<close> comes with the time \<open>NOW()\<close> gives its \<open>INSERT\<close>; the requests on
  \<open>/turno/:id\<close> come with the text of \<open>:id\<close>.
\<close>

datatype request =
  POST_turno req nat
| GET_turnos
| GET_turno_pdf string
| PUT_turno string req
| DELETE_turno string

fun handle :: "int4in \<Rightarrow> request \<Rightarrow> database \<Rightarrow> database \<times> response" where
  "handle int4 (POST_turno rq now) db = post_turno rq now db"
| "handle int4 GET_turnos db = get_turnos db"
| "handle int4 (GET_turno_pdf idtxt) db = get_turno_pdf int4 idtxt db"
| "handle int4 (PUT_turno idtxt rq) db = put_turno int4 idtxt rq db"
| "handle int4 (DELETE_turno idtxt) db = delete_turno_id int4 idtxt db"

fun run :: "int4in \<Rightarrow> request list \<Rightarrow> database \<Rightarrow> database \<times> response list" where
  "run int4 [] db = (db, [])"
| "run int4 (r # rs) db =
     (case handle int4 r db of (db1, res) \<Rightarrow>
        (case run int4 rs db1 of (db2, ress) \<Rightarrow> (db2, res # ress)))"

text \<open>The table after \<open>CREATE TABLE\<close>, and a body with the three fields.\<close>

definition vacia :: database where
  "vacia = \<lparr>turnos = [], turnos_id_seq = 0\<rparr>"

definition pedir :: "string \<Rightarrow> string \<Rightarrow> string \<Rightarrow> req" where
  "pedir u n s = \<lparr>protocol = ''http'', host = ''localhost:5000'',
     body_id_usuario = Some u, body_nombre = Some n, body_solicitud = Some s\<rparr>"

section \<open>Notions the properties are stated with\<close>

text \<open>
  None of the following is code of the service. \<open>decimal_value\<close> reads a string of digits as
  a number, and \<open>ticket_number\<close> is the number a label shows after its prefix \<open>T-\<close>.
\<close>

definition digit_val :: "char \<Rightarrow> nat" where
  "digit_val c = of_char c - 48"

definition is_digit :: "char \<Rightarrow> bool" where
  "is_digit c = (c \<in> set ''0123456789'')"

definition decimal_value :: "string \<Rightarrow> nat" where
  "decimal_value s = foldl (\<lambda>a c. 10 * a + digit_val c) 0 s"

definition ticket_number :: "string \<Rightarrow> nat" where
  "ticket_number tk = decimal_value (drop 2 tk)"

text \<open>
  A reading of \<open>:id\<close> for the examples: the decimal numerals, with an optional sign and
  white space around them, of the integers of 32 bits. Every version of the database
  reads these texts so, and rejects a text without a digit and a numeral out of range.
  The other forms of numerals that newer versions read as well are not read here; no
  example uses one.
\<close>

definition is_space :: "char \<Rightarrow> bool" where
  "is_space c = (c \<in> set [CHR '' '', CHR 0x09, CHR 0x0A, CHR 0x0B, CHR 0x0C, CHR 0x0D])"

definition decimal_int :: "string \<Rightarrow> int" where
  "decimal_int s = foldl (\<lambda>a c. 10 * a + int (digit_val c)) 0 s"

definition int4in_decimal :: int4in where
  "int4in_decimal s =
     (let t = dropWhile is_space s;
          neg = (case t of [] \<Rightarrow> False | c # _ \<Rightarrow> c = CHR ''-'');
          t1 = (case t of [] \<Rightarrow> [] | c # r \<Rightarrow> if c = CHR ''-'' \<or> c = CHR ''+'' then r else t);
          ds = takeWhile is_digit t1;
          rest = dropWhile is_digit t1;
          i = (if neg then - decimal_int ds else decimal_int ds)
      in if ds = [] \<or> \<not> list_all is_space rest then None
         else if - 2147483648 \<le> i \<and> i \<le> 2147483647 then Some i
         else None)"

text \<open>
  What the schema and the sequence keep true of the table: no two rows share an \<open>id\<close> or an
  \<open>id_usuario\<close>, and the sequence has handed out every \<open>id\<close> in the table.
\<close>

definition db_inv :: "database \<Rightarrow> bool" where
  "db_inv db \<longleftrightarrow>
     distinct (map id_pk (turnos db)) \<and> distinct (map id_usuario (turnos db)) \<and>
     (\<forall>t \<in> set (turnos db). id_pk t \<le> turnos_id_seq db)"

text \<open>
  With the range of the sequence: it starts at 1 and does not pass 2147483647.
\<close>

definition esquema :: "database \<Rightarrow> bool" where
  "esquema db \<longleftrightarrow>
     db_inv db \<and> (\<forall>t \<in> set (turnos db). 1 \<le> id_pk t) \<and>
     0 \<le> turnos_id_seq db \<and> turnos_id_seq db \<le> 2147483647"

text \<open>
  An \<open>id\<close> that the sequence has handed out and that no row carries; \<open>estable\<close> adds what
  the schema keeps true.
\<close>

definition retirado :: "int \<Rightarrow> database \<Rightarrow> bool" where
  "retirado i db \<longleftrightarrow> i \<notin> set (map id_pk (turnos db)) \<and> i \<le> turnos_id_seq db"

definition estable :: "int \<Rightarrow> database \<Rightarrow> bool" where
  "estable i db \<longleftrightarrow> db_inv db \<and> retirado i db"

text \<open>The label a response of \<open>POST /turno\<close> carries.\<close>

definition ticket_of :: "response \<Rightarrow> string option" where
  "ticket_of res = (case payload res of Asignado a \<Rightarrow> Some (r_ticket a) | _ \<Rightarrow> None)"

text \<open>
  The labels minted while a list of requests is handled, in their order: the label in the
  response of each request that made the table grow.
\<close>

fun minted :: "int4in \<Rightarrow> request list \<Rightarrow> database \<Rightarrow> string list" where
  "minted int4 [] db = []"
| "minted int4 (r # rs) db =
     (case handle int4 r db of (db1, res) \<Rightarrow>
        (if length (turnos db) < length (turnos db1)
         then (case ticket_of res of None \<Rightarrow> [] | Some tk \<Rightarrow> [tk])
         else []) @ minted int4 rs db1)"

text \<open>No request of the list deletes a row: the table never shrinks.\<close>

fun no_deletion :: "int4in \<Rightarrow> request list \<Rightarrow> database \<Rightarrow> bool" where
  "no_deletion int4 [] db = True"
| "no_deletion int4 (r # rs) db =
     (case handle int4 r db of (db1, res) \<Rightarrow>
        length (turnos db) \<le> length (turnos db1) \<and> no_deletion int4 rs db1)"

text \<open>A body whose three fields are the given strings.\<close>

definition pide :: "req \<Rightarrow> string \<Rightarrow> string \<Rightarrow> string \<Rightarrow> bool" where
  "pide rq u n s \<longleftrightarrow>
     body_id_usuario rq = Some u \<and> body_nombre rq = Some n \<and> body_solicitud rq = Some s"

text \<open>
  Reading the label, the name and the user back from the lines of a receipt: each is what
  follows its caption on the first line that starts with the caption.
\<close>

fun campo :: "string \<Rightarrow> string list \<Rightarrow> string option" where
  "campo caption [] = None"
| "campo caption (l # ls) =
     (if take (length caption) l = caption then Some (drop (length caption) l)
      else campo caption ls)"

definition parse_receipt :: "string list \<Rightarrow> string option \<times> string option \<times> string option" where
  "parse_receipt ls = (campo ''Ticket: '' ls, campo ''Nombre: '' ls, campo ''ID Usuario: '' ls)"

section \<open>Decimal digits\<close>

lemma below_ten: "d < 10 \<Longrightarrow> d \<in> {0, 1, 2, 3, 4, 5, 6, 7, 8, 9::nat}"
  by auto

lemma digit_val_digit_char: "d < 10 \<Longrightarrow> digit_val (digit_char d) = d"
  by (drule below_ten) (auto simp: digit_val_def digit_char_def)

lemma is_digit_digit_char: "d < 10 \<Longrightarrow> is_digit (digit_char d)"
  by (drule below_ten) (auto simp: is_digit_def digit_char_def)

lemma decimal_value_snoc: "decimal_value (s @ [c]) = 10 * decimal_value s + digit_val c"
  by (simp add: decimal_value_def)

lemma decimal_value_String_nat: "decimal_value (String_nat n) = n"
proof (induction n rule: String_nat.induct)
  case (1 n)
  show ?case
  proof (cases "n < 10")
    case True
    then show ?thesis
      by (simp add: String_nat.simps [of n] decimal_value_def digit_val_digit_char)
  next
    case False
    with 1 show ?thesis
      by (simp add: String_nat.simps [of n] decimal_value_snoc digit_val_digit_char)
  qed
qed

lemma digits_String_nat: "list_all is_digit (String_nat n)"
proof (induction n rule: String_nat.induct)
  case (1 n)
  then show ?case
    by (cases "n < 10") (simp_all add: String_nat.simps [of n] is_digit_digit_char)
qed

lemma decimal_value_zeros: "decimal_value (replicate k (CHR ''0'') @ s) = decimal_value s"
proof -
  have "foldl (\<lambda>a c. 10 * a + digit_val c) 0 (replicate k (CHR ''0'')) = 0"
    by (induction k) (simp_all add: digit_val_def)
  then show ?thesis by (simp add: decimal_value_def)
qed

lemma length_String_nat_le: "0 < k \<Longrightarrow> n < 10 ^ k \<Longrightarrow> length (String_nat n) \<le> k"
proof (induction n arbitrary: k rule: String_nat.induct)
  case (1 n)
  show ?case
  proof (cases "n < 10")
    case True
    with 1(2) show ?thesis by (simp add: String_nat.simps [of n])
  next
    case False
    with 1(2,3) have "1 < k" by (cases "k = 1") auto
    then obtain j where k: "k = Suc j" and j: "0 < j" by (cases k) auto
    from 1(3) k have "n div 10 < 10 ^ j" by (simp add: less_mult_imp_div_less)
    with 1(1) [OF False j] have "length (String_nat (n div 10)) \<le> j" .
    with False k show ?thesis by (simp add: String_nat.simps [of n])
  qed
qed

lemma length_String_nat_gt: "10 ^ k \<le> n \<Longrightarrow> k < length (String_nat n)"
proof (induction n arbitrary: k rule: String_nat.induct)
  case (1 n)
  show ?case
  proof (cases k)
    case 0
    then show ?thesis by (cases "n < 10") (simp_all add: String_nat.simps [of n])
  next
    case (Suc j)
    have a: "(10::nat) \<le> 10 * 10 ^ j" by simp
    from 1(2) Suc have b: "10 * 10 ^ j \<le> n" by simp
    from a b have "10 \<le> n" by (rule order_trans)
    then have n: "\<not> n < 10" by simp
    from 1(2) Suc have "10 ^ j \<le> n div 10" by auto
    with 1(1) n have "j < length (String_nat (n div 10))" by simp
    with n Suc show ?thesis by (simp add: String_nat.simps [of n])
  qed
qed

section \<open>Texts and widths\<close>

lemma varchar_fits: "length s \<le> n \<Longrightarrow> varchar n s = Inr s"
  by (simp add: varchar_def)

lemma varchar_Inr: "varchar n s = Inr s' \<Longrightarrow> s' = take n s"
  by (auto simp: varchar_def split: if_splits)

lemma is_digit_not_space: "is_digit c \<Longrightarrow> c \<noteq> CHR '' ''"
  by (auto simp: is_digit_def)

lemma is_digit_not_nul: "is_digit c \<Longrightarrow> c \<noteq> CHR 0x00"
  by (auto simp: is_digit_def)

lemma varchar_digits_end:
  assumes "list_all is_digit ds" and "varchar n (p @ ds) = Inr s'" and "length p \<le> n"
  shows "s' = p @ ds"
proof (cases "length (p @ ds) \<le> n")
  case True
  with assms(2) show ?thesis by (simp add: varchar_def)
next
  case False
  with assms(3) have d: "drop n (p @ ds) = drop (n - length p) ds" and ne: "drop (n - length p) ds \<noteq> []"
    by simp_all
  from assms(1) have "list_all is_digit (drop (n - length p) ds)"
    by (auto simp: list_all_iff dest: in_set_dropD)
  with ne have "\<not> list_all (\<lambda>c. c = CHR '' '') (drop (n - length p) ds)"
    by (cases "drop (n - length p) ds") (auto dest: is_digit_not_space)
  with False assms(2) d show ?thesis by (simp add: varchar_def)
qed

section \<open>The label\<close>

lemma padStart_digits:
  fixes m :: nat
  defines "ds \<equiv> padStart 4 (CHR ''0'') (String_nat m)"
  shows "list_all is_digit ds" and "decimal_value ds = m"
    and "m < 10000 \<Longrightarrow> length ds = 4"
    and "10000 \<le> m \<Longrightarrow> ds = String_nat m"
proof -
  have zero: "is_digit (CHR ''0'')" by (simp add: is_digit_def)
  have e: "(10000::nat) = 10 ^ 4" by simp
  show "list_all is_digit ds"
    using digits_String_nat [of m] zero by (simp add: ds_def padStart_def list_all_iff)
  show "decimal_value ds = m"
    by (simp add: ds_def padStart_def decimal_value_zeros decimal_value_String_nat)
  show "length ds = 4" if "m < 10000"
  proof -
    from that have "length (String_nat m) \<le> 4"
      unfolding e by (intro length_String_nat_le) simp_all
    then show ?thesis by (simp add: ds_def padStart_def)
  qed
  show "ds = String_nat m" if "10000 \<le> m"
  proof -
    from that have "4 < length (String_nat m)"
      unfolding e by (rule length_String_nat_gt)
    then show ?thesis by (simp add: ds_def padStart_def)
  qed
qed

lemma generarTicket_eq:
  "generarTicket db = ''T-'' @ padStart 4 (CHR ''0'') (String_nat (length (turnos db) + 1))"
  by (simp add: generarTicket_def select_count_def)

lemma length_padStart_le:
  assumes "m < 10 ^ k" and "4 \<le> k"
  shows "length (padStart 4 (CHR ''0'') (String_nat m)) \<le> k"
proof -
  from assms have "length (String_nat m) \<le> k"
    by (intro length_String_nat_le) simp_all
  with assms(2) show ?thesis by (simp add: padStart_def)
qed

lemma texto_label: "texto (''T-'' @ padStart 4 (CHR ''0'') (String_nat m))"
  using padStart_digits(1) [of m]
  by (auto simp: texto_def list_all_iff dest: is_digit_not_nul)

lemma varchar_label:
  assumes "varchar 50 (''T-'' @ padStart 4 (CHR ''0'') (String_nat m)) = Inr tk'"
  shows "tk' = ''T-'' @ padStart 4 (CHR ''0'') (String_nat m)"
  using padStart_digits(1) [of m] assms by (rule varchar_digits_end) simp

lemma String_nat_10000: "String_nat 10000 = ''10000''"
  by (simp add: String_nat.simps [of 10000] String_nat.simps [of 1000] String_nat.simps [of 100]
      String_nat.simps [of 10] String_nat.simps [of "Suc 0"] digit_char_def)

lemma label_beyond_width: "padStart 4 (CHR ''0'') (String_nat 10000) = ''10000''"
  by (simp add: padStart_def String_nat_10000)

lemma ticket_number_label: "ticket_number (''T-'' @ padStart 4 (CHR ''0'') (String_nat m)) = m"
  using padStart_digits(2) [of m] by (simp add: ticket_number_def)

section \<open>The table under its schema\<close>

lemma db_inv_seq_fresh: "db_inv db \<Longrightarrow> turnos_id_seq db + 1 \<notin> set (map id_pk (turnos db))"
  by (auto simp: db_inv_def)

lemma db_inv_vacia: "db_inv vacia"
  by (simp add: db_inv_def vacia_def)

lemma esquema_vacia: "esquema vacia"
  by (simp add: esquema_def db_inv_def vacia_def)

lemma esquema_count:
  assumes "esquema db"
  shows "length (turnos db) \<le> 2147483647"
proof -
  from assms have d: "distinct (map id_pk (turnos db))"
    and r: "set (map id_pk (turnos db)) \<subseteq> {1..2147483647}"
    by (auto simp: esquema_def db_inv_def)
  from d have "length (turnos db) = card (set (map id_pk (turnos db)))"
    by (simp only: distinct_card length_map)
  also from r have "\<dots> \<le> card {1..2147483647::int}"
    by (intro card_mono) simp_all
  also have "\<dots> = 2147483647" by simp
  finally show ?thesis .
qed

lemma esquema_label_fits:
  assumes "esquema db"
  shows "length (generarTicket db) \<le> 50"
proof -
  from assms have "length (turnos db) + 1 < 10 ^ 10"
    using esquema_count [OF assms] by simp
  then have "length (padStart 4 (CHR ''0'') (String_nat (length (turnos db) + 1))) \<le> 10"
    by (rule length_padStart_le) simp
  then show ?thesis by (simp add: generarTicket_eq)
qed

section \<open>The handlers, case by case\<close>

lemma falsy_simps: "falsy None" "falsy (Some s) \<longleftrightarrow> s = []"
  by (simp_all add: falsy_def)

lemma str_Some: "str (Some s) = s"
  by (simp add: str_def)

lemma select_by_id_usuario_empty:
  "u \<notin> set (map id_usuario (turnos db)) \<Longrightarrow> select_by_id_usuario db u = []"
  by (auto simp: select_by_id_usuario_def filter_empty_conv)

lemma select_by_id_usuario_hd:
  assumes "u \<in> set (map id_usuario (turnos db))"
  obtains t ts where "select_by_id_usuario db u = t # ts" "t \<in> set (turnos db)" "id_usuario t = u"
proof -
  from assms have "select_by_id_usuario db u \<noteq> []"
    by (auto simp: select_by_id_usuario_def filter_empty_conv)
  then obtain t ts where e: "select_by_id_usuario db u = t # ts"
    by (cases "select_by_id_usuario db u") auto
  then have "t \<in> set (filter (\<lambda>t. id_usuario t = u) (turnos db))"
    by (simp add: select_by_id_usuario_def)
  then have "t \<in> set (turnos db)" "id_usuario t = u" by auto
  with e that show thesis by blast
qed

lemma find_filter_hd: "filter P xs = t # ts \<Longrightarrow> List.find P xs = Some t"
  by (induction xs) (auto split: if_splits)

lemma insert_turno_shape:
  "(\<exists>e. insert_turno db u n s tk now = (db, Inl e)) \<or>
   (turnos_id_seq db < 2147483647 \<and>
    (\<exists>c. insert_turno db u n s tk now =
       (db\<lparr>turnos_id_seq := turnos_id_seq db + 1\<rparr>, Inl (unique_violation c)))) \<or>
   (\<exists>u' n' tk'. varchar 255 u = Inr u' \<and> varchar 255 n = Inr n' \<and> varchar 50 tk = Inr tk' \<and>
      turnos_id_seq db < 2147483647 \<and>
      turnos_id_seq db + 1 \<notin> set (map id_pk (turnos db)) \<and>
      u' \<notin> set (map id_usuario (turnos db)) \<and>
      insert_turno db u n s tk now =
        (db\<lparr>turnos_id_seq := turnos_id_seq db + 1,
            turnos := turnos db @ [\<lparr>id_pk = turnos_id_seq db + 1, id_usuario = u',
              nombre = n', solicitud = s, ticket = tk', fecha = now\<rparr>]\<rparr>,
         Inr [\<lparr>id_pk = turnos_id_seq db + 1, id_usuario = u', nombre = n', solicitud = s,
               ticket = tk', fecha = now\<rparr>]))"
  by (auto simp: insert_turno_def Let_def split: sum.splits)

lemma insert_turno_fresh:
  assumes "texto u" and "texto n" and "texto s" and "texto tk"
    and "length u \<le> 255" and "length n \<le> 255" and "length tk \<le> 50"
    and "turnos_id_seq db < 2147483647"
    and "turnos_id_seq db + 1 \<notin> set (map id_pk (turnos db))"
    and "u \<notin> set (map id_usuario (turnos db))"
  shows "insert_turno db u n s tk now =
    (let t = \<lparr>id_pk = turnos_id_seq db + 1, id_usuario = u, nombre = n, solicitud = s,
               ticket = tk, fecha = now\<rparr>
     in (db\<lparr>turnos_id_seq := turnos_id_seq db + 1, turnos := turnos db @ [t]\<rparr>, Inr [t]))"
  using assms by (simp add: insert_turno_def Let_def varchar_fits)

lemma insert_turno_taken:
  assumes "texto u" and "texto n" and "texto s" and "texto tk"
    and "length u \<le> 255" and "length n \<le> 255" and "length tk \<le> 50"
    and "turnos_id_seq db < 2147483647"
    and "turnos_id_seq db + 1 \<notin> set (map id_pk (turnos db))"
    and "u \<in> set (map id_usuario (turnos db))"
  shows "insert_turno db u n s tk now =
    (db\<lparr>turnos_id_seq := turnos_id_seq db + 1\<rparr>, Inl (unique_violation ''turnos_id_usuario_key''))"
  using assms by (simp add: insert_turno_def Let_def varchar_fits)

lemma insert_turno_rows:
  "snd (insert_turno db u n s tk now) = Inl e \<Longrightarrow>
   turnos (fst (insert_turno db u n s tk now)) = turnos db"
  using insert_turno_shape [of db u n s tk now] by auto

lemma post_turno_insertar_shape:
  "(turnos (fst (post_turno_insertar rq tk now db)) = turnos db \<and>
    snd (post_turno_insertar rq tk now db) =
      status_json 500 (Error ''Error al procesar el turno'')) \<or>
   (\<exists>t tk'. varchar 50 tk = Inr tk' \<and> ticket t = tk' \<and>
      turnos (fst (post_turno_insertar rq tk now db)) = turnos db @ [t] \<and>
      snd (post_turno_insertar rq tk now db) = recien_asignado rq t)"
  using insert_turno_shape [of db "str (body_id_usuario rq)" "str (body_nombre rq)"
      "str (body_solicitud rq)" tk now]
  by (auto simp: post_turno_insertar_def)

lemma post_turno_crea:
  assumes "pide rq u n s" and "u \<noteq> []" and "n \<noteq> []" and "s \<noteq> []"
    and "texto u" and "texto n" and "texto s"
    and "length u \<le> 255" and "length n \<le> 255"
    and "esquema db" and "turnos_id_seq db < 2147483647"
    and "u \<notin> set (map id_usuario (turnos db))"
  shows "post_turno rq now db =
    (let t = \<lparr>id_pk = turnos_id_seq db + 1, id_usuario = u, nombre = n, solicitud = s,
               ticket = generarTicket db, fecha = now\<rparr>
     in (db\<lparr>turnos_id_seq := turnos_id_seq db + 1, turnos := turnos db @ [t]\<rparr>,
         recien_asignado rq t))"
proof -
  from assms(1-4,12) have "post_turno_consultar rq db = None"
    by (simp add: post_turno_consultar_def pide_def falsy_simps str_Some
        select_by_id_usuario_empty)
  moreover from assms(1) have "post_turno_insertar rq (generarTicket db) now db =
      (case insert_turno db u n s (generarTicket db) now of
        (db', Inr (turno # _)) \<Rightarrow> (db', recien_asignado rq turno)
      | (db', _) \<Rightarrow> (db', status_json 500 (Error ''Error al procesar el turno'')))"
    by (simp add: post_turno_insertar_def pide_def str_Some)
  moreover have "texto (generarTicket db)"
    by (simp only: generarTicket_eq texto_label)
  moreover from assms(10) have "length (generarTicket db) \<le> 50"
    by (rule esquema_label_fits)
  moreover from assms(10) have "turnos_id_seq db + 1 \<notin> set (map id_pk (turnos db))"
    by (intro db_inv_seq_fresh) (simp add: esquema_def)
  ultimately show ?thesis
    using assms(5-9,11,12) by (simp add: post_turno_def insert_turno_fresh Let_def)
qed

lemma post_turno_existe:
  assumes "pide rq u n s" and "u \<noteq> []" and "n \<noteq> []" and "s \<noteq> []"
    and "select_by_id_usuario db u = t # ts"
  shows "post_turno rq now db = (db, ya_asignado rq t)"
  using assms
  by (simp add: post_turno_def post_turno_consultar_def pide_def falsy_simps str_Some)

lemma post_turno_falta:
  assumes "falsy (body_id_usuario rq) \<or> falsy (body_nombre rq) \<or> falsy (body_solicitud rq)"
  shows "post_turno rq now db = (db, status_json 400 (Error
    ''Faltan datos requeridos: id_usuario, nombre y solicitud son obligatorios''))"
  using assms by (simp add: post_turno_def post_turno_consultar_def)

lemma post_turno_shape:
  "fst (post_turno rq now db) = db \<or>
   post_turno rq now db = post_turno_insertar rq (generarTicket db) now db"
  by (simp add: post_turno_def split: option.split)

lemma map_unchanged: "i \<notin> set (map id_pk ts) \<Longrightarrow> map (\<lambda>t. if id_pk t = i then f t else t) ts = ts"
  by (induction ts) auto

lemma filter_unchanged: "i \<notin> set (map id_pk ts) \<Longrightarrow> filter (\<lambda>t. id_pk t \<noteq> i) ts = ts"
  by (induction ts) auto

lemma filter_none: "i \<notin> set (map id_pk ts) \<Longrightarrow> filter (\<lambda>t. id_pk t = i) ts = []"
  by (induction ts) auto

lemma filter_some:
  assumes "i \<in> set (map id_pk ts)"
  obtains t rest where "filter (\<lambda>t. id_pk t = i) ts = t # rest" "t \<in> set ts" "id_pk t = i"
proof -
  from assms have "filter (\<lambda>t. id_pk t = i) ts \<noteq> []"
    by (auto simp: filter_empty_conv)
  then obtain t rest where e: "filter (\<lambda>t. id_pk t = i) ts = t # rest"
    by (cases "filter (\<lambda>t. id_pk t = i) ts") auto
  then have "t \<in> set (filter (\<lambda>t. id_pk t = i) ts)" by simp
  then have "t \<in> set ts" "id_pk t = i" by auto
  with e that show thesis by blast
qed

lemma put_turno_falta:
  assumes "falsy (body_nombre rq) \<or> falsy (body_solicitud rq)"
  shows "put_turno int4 idtxt rq db =
    (db, status_json 400 (Error ''Faltan datos: nombre y solicitud son obligatorios''))"
  using assms by (simp add: put_turno_def)

lemma update_turno_shape:
  "(\<exists>e. update_turno int4 db n s idtxt = (db, Inl e)) \<or>
   (\<exists>i n'. int4 idtxt = Some i \<and> varchar 255 n = Inr n' \<and> texto n \<and> texto s \<and>
      update_turno int4 db n s idtxt =
        (db\<lparr>turnos := map (\<lambda>t. if id_pk t = i then t\<lparr>nombre := n', solicitud := s\<rparr> else t)
           (turnos db)\<rparr>,
         Inr (map (\<lambda>t. t\<lparr>nombre := n', solicitud := s\<rparr>)
           (filter (\<lambda>t. id_pk t = i) (turnos db)))))"
  by (auto simp: update_turno_def Let_def split: option.splits sum.splits)

lemma update_turno_ok:
  assumes "int4 idtxt = Some i" and "texto n" and "texto s" and "length n \<le> 255"
  shows "update_turno int4 db n s idtxt =
        (db\<lparr>turnos := map (\<lambda>t. if id_pk t = i then t\<lparr>nombre := n, solicitud := s\<rparr> else t)
           (turnos db)\<rparr>,
         Inr (map (\<lambda>t. t\<lparr>nombre := n, solicitud := s\<rparr>)
           (filter (\<lambda>t. id_pk t = i) (turnos db))))"
  using assms by (simp add: update_turno_def Let_def varchar_fits)

lemma put_turno_presente:
  assumes "\<not> falsy (body_nombre rq)" and "\<not> falsy (body_solicitud rq)"
    and "int4 idtxt = Some i"
    and "texto (str (body_nombre rq))" and "texto (str (body_solicitud rq))"
    and "length (str (body_nombre rq)) \<le> 255"
    and "filter (\<lambda>t. id_pk t = i) (turnos db) = t # rest"
  shows "put_turno int4 idtxt rq db =
    (db\<lparr>turnos := map (\<lambda>t. if id_pk t = i
            then t\<lparr>nombre := str (body_nombre rq), solicitud := str (body_solicitud rq)\<rparr>
            else t) (turnos db)\<rparr>,
     json (Mensaje ''Turno actualizado correctamente''
       (t\<lparr>nombre := str (body_nombre rq), solicitud := str (body_solicitud rq)\<rparr>)))"
  using assms by (simp add: put_turno_def update_turno_ok)

lemma delete_turno_id_rechazado:
  assumes "int4 idtxt = None"
  shows "delete_turno_id int4 idtxt db = (db, status_json 500 (Error ''Error al eliminar turno''))"
  using assms by (simp add: delete_turno_id_def delete_turno_def)

lemma delete_turno_id_ausente:
  assumes "int4 idtxt = Some i" and "i \<notin> set (map id_pk (turnos db))"
  shows "delete_turno_id int4 idtxt db = (db, status_json 404 (Error ''Turno no encontrado''))"
  using assms by (simp add: delete_turno_id_def delete_turno_def filter_none filter_unchanged)

lemma delete_turno_id_presente:
  assumes "int4 idtxt = Some i" and "filter (\<lambda>t. id_pk t = i) (turnos db) = t # rest"
  shows "delete_turno_id int4 idtxt db =
    (db\<lparr>turnos := filter (\<lambda>t. id_pk t \<noteq> i) (turnos db)\<rparr>,
     json (Mensaje ''Turno eliminado correctamente'' t))"
  using assms by (simp add: delete_turno_id_def delete_turno_def)

lemma get_turno_pdf_rechazado:
  assumes "int4 idtxt = None"
  shows "get_turno_pdf int4 idtxt db = (db, status_json 500 (Error ''Error al generar PDF''))"
  using assms by (simp add: get_turno_pdf_def select_by_id_def)

lemma get_turno_pdf_ausente:
  assumes "int4 idtxt = Some i" and "i \<notin> set (map id_pk (turnos db))"
  shows "get_turno_pdf int4 idtxt db = (db, status_json 404 (Error ''Turno no encontrado''))"
  using assms by (simp add: get_turno_pdf_def select_by_id_def filter_none)

lemma get_turno_pdf_same: "fst (get_turno_pdf int4 idtxt db) = db"
  by (simp add: get_turno_pdf_def split: sum.split list.split)

section \<open>What every request keeps true\<close>

lemma fst_insert_turno:
  "fst (insert_turno db u n s tk now) = db \<or>
   (turnos_id_seq db < 2147483647 \<and>
    fst (insert_turno db u n s tk now) = db\<lparr>turnos_id_seq := turnos_id_seq db + 1\<rparr>) \<or>
   (\<exists>t. turnos_id_seq db < 2147483647 \<and> id_pk t = turnos_id_seq db + 1 \<and>
      id_pk t \<notin> set (map id_pk (turnos db)) \<and>
      id_usuario t \<notin> set (map id_usuario (turnos db)) \<and>
      fst (insert_turno db u n s tk now) =
        db\<lparr>turnos_id_seq := turnos_id_seq db + 1, turnos := turnos db @ [t]\<rparr>)"
proof -
  from insert_turno_shape [of db u n s tk now] show ?thesis
  proof (elim disjE exE conjE)
    fix u' n' tk'
    assume "turnos_id_seq db < 2147483647"
      and "turnos_id_seq db + 1 \<notin> set (map id_pk (turnos db))"
      and "u' \<notin> set (map id_usuario (turnos db))"
      and "insert_turno db u n s tk now =
        (db\<lparr>turnos_id_seq := turnos_id_seq db + 1,
            turnos := turnos db @ [\<lparr>id_pk = turnos_id_seq db + 1, id_usuario = u',
              nombre = n', solicitud = s, ticket = tk', fecha = now\<rparr>]\<rparr>,
         Inr [\<lparr>id_pk = turnos_id_seq db + 1, id_usuario = u', nombre = n', solicitud = s,
               ticket = tk', fecha = now\<rparr>])"
    then show ?thesis
      by (intro disjI2 exI [of _ "\<lparr>id_pk = turnos_id_seq db + 1, id_usuario = u',
              nombre = n', solicitud = s, ticket = tk', fecha = now\<rparr>"]) simp
  qed simp_all
qed

lemma db_inv_insert_turno:
  assumes "db_inv db"
  shows "db_inv (fst (insert_turno db u n s tk now))"
  using fst_insert_turno [of db u n s tk now] assms
  by (elim disjE conjE exE) (auto simp: db_inv_def)

lemma esquema_insert_turno:
  assumes "esquema db"
  shows "esquema (fst (insert_turno db u n s tk now))"
  using fst_insert_turno [of db u n s tk now] assms
  by (elim disjE conjE exE) (auto simp: esquema_def db_inv_def)

lemma retirado_insert_turno:
  assumes "retirado i db"
  shows "retirado i (fst (insert_turno db u n s tk now))"
  using fst_insert_turno [of db u n s tk now] assms
  by (elim disjE conjE exE) (auto simp: retirado_def)

lemma fst_post_turno_insertar:
  "fst (post_turno_insertar rq tk now db) =
   fst (insert_turno db (str (body_id_usuario rq)) (str (body_nombre rq))
     (str (body_solicitud rq)) tk now)"
  by (simp add: post_turno_insertar_def split: prod.split sum.split list.split)

lemma fst_post_turno:
  "fst (post_turno rq now db) = db \<or>
   fst (post_turno rq now db) = fst (post_turno_insertar rq (generarTicket db) now db)"
  by (simp add: post_turno_def split: option.split)

lemma fst_put_turno:
  "fst (put_turno int4 idtxt rq db) = db \<or>
   fst (put_turno int4 idtxt rq db) =
     fst (update_turno int4 db (str (body_nombre rq)) (str (body_solicitud rq)) idtxt)"
  by (simp add: put_turno_def split: prod.split sum.split list.split)

lemma fst_delete_turno_id: "fst (delete_turno_id int4 idtxt db) = fst (delete_turno int4 db idtxt)"
  by (simp add: delete_turno_id_def split: prod.split sum.split list.split)

lemma map_id_pk_update:
  "map id_pk (map (\<lambda>t. if id_pk t = i then t\<lparr>nombre := n, solicitud := s\<rparr> else t) ts) = map id_pk ts"
  by (induction ts) auto

lemma map_id_usuario_update:
  "map id_usuario (map (\<lambda>t. if id_pk t = i then t\<lparr>nombre := n, solicitud := s\<rparr> else t) ts) =
   map id_usuario ts"
  by (induction ts) auto

lemma fst_update_turno:
  "fst (update_turno int4 db n s idtxt) = db \<or>
   (\<exists>i n'. fst (update_turno int4 db n s idtxt) =
      db\<lparr>turnos := map (\<lambda>t. if id_pk t = i then t\<lparr>nombre := n', solicitud := s\<rparr> else t)
        (turnos db)\<rparr>)"
  using update_turno_shape [of int4 db n s idtxt] by (elim disjE exE conjE) auto

lemma db_inv_update_turno:
  assumes "db_inv db"
  shows "db_inv (fst (update_turno int4 db n s idtxt))"
proof -
  have "db_inv (db\<lparr>turnos := map (\<lambda>t. if id_pk t = i then t\<lparr>nombre := n', solicitud := s\<rparr> else t)
        (turnos db)\<rparr>)" for i n'
  proof -
    let ?ts = "map (\<lambda>t. if id_pk t = i then t\<lparr>nombre := n', solicitud := s\<rparr> else t) (turnos db)"
    have "set (map id_pk ?ts) = set (map id_pk (turnos db))"
      by (simp only: map_id_pk_update)
    then have "\<forall>t \<in> set ?ts. id_pk t \<le> turnos_id_seq db"
      using assms by (auto simp: db_inv_def)
    with assms show ?thesis
      by (simp add: db_inv_def map_id_pk_update map_id_usuario_update del: set_map map_map)
  qed
  with assms fst_update_turno [of int4 db n s idtxt] show ?thesis by auto
qed

lemma esquema_update_turno:
  assumes "esquema db"
  shows "esquema (fst (update_turno int4 db n s idtxt))"
proof -
  let ?db' = "fst (update_turno int4 db n s idtxt)"
  from assms have inv: "db_inv ?db'"
    by (simp add: esquema_def db_inv_update_turno)
  have seq: "turnos_id_seq ?db' = turnos_id_seq db"
    using fst_update_turno [of int4 db n s idtxt] by auto
  have ids: "set (map id_pk (turnos ?db')) = set (map id_pk (turnos db))"
    using fst_update_turno [of int4 db n s idtxt]
    by (elim disjE exE) (simp_all add: map_id_pk_update del: set_map map_map)
  from assms have "\<forall>j \<in> set (map id_pk (turnos db)). 1 \<le> j"
    by (simp add: esquema_def)
  then have "\<forall>j \<in> set (map id_pk (turnos ?db')). 1 \<le> j"
    by (simp only: ids)
  then have pos: "\<forall>t \<in> set (turnos ?db'). 1 \<le> id_pk t"
    by simp
  from inv seq pos assms show ?thesis by (simp add: esquema_def)
qed

lemma retirado_update_turno:
  assumes "retirado j db"
  shows "retirado j (fst (update_turno int4 db n s idtxt))"
  using assms fst_update_turno [of int4 db n s idtxt]
  by (elim disjE exE) (simp_all add: retirado_def map_id_pk_update del: set_map map_map)

lemma fst_delete_turno:
  "fst (delete_turno int4 db idtxt) = db \<or>
   (\<exists>i. int4 idtxt = Some i \<and>
      fst (delete_turno int4 db idtxt) = db\<lparr>turnos := filter (\<lambda>t. id_pk t \<noteq> i) (turnos db)\<rparr>)"
  by (simp add: delete_turno_def split: option.split)

lemma db_inv_delete_turno:
  assumes "db_inv db"
  shows "db_inv (fst (delete_turno int4 db idtxt))"
  using assms fst_delete_turno [of int4 db idtxt]
  by (elim disjE exE conjE) (simp_all add: db_inv_def distinct_map_filter)

lemma esquema_delete_turno:
  assumes "esquema db"
  shows "esquema (fst (delete_turno int4 db idtxt))"
  using assms fst_delete_turno [of int4 db idtxt]
  by (elim disjE exE conjE) (simp_all add: esquema_def db_inv_def distinct_map_filter)

lemma retirado_delete_turno:
  assumes "retirado j db"
  shows "retirado j (fst (delete_turno int4 db idtxt))"
  using assms fst_delete_turno [of int4 db idtxt]
  by (elim disjE exE conjE) (auto simp: retirado_def)

lemma retirado_after_delete:
  assumes "db_inv db" and "int4 idtxt = Some i" and "i \<in> set (map id_pk (turnos db))"
  shows "retirado i (fst (delete_turno int4 db idtxt))"
  using assms by (auto simp: retirado_def delete_turno_def db_inv_def)

lemma fst_run_Cons: "fst (run int4 (r # rs) db) = fst (run int4 rs (fst (handle int4 r db)))"
  by (auto split: prod.splits)

lemma snd_run_Cons:
  "snd (run int4 (r # rs) db) =
   snd (handle int4 r db) # snd (run int4 rs (fst (handle int4 r db)))"
  by (auto split: prod.splits)

lemma db_inv_handle:
  assumes "db_inv db"
  shows "db_inv (fst (handle int4 r db))"
proof (cases r)
  case (POST_turno rq now)
  with assms fst_post_turno [of rq now db] show ?thesis
    by (auto simp: fst_post_turno_insertar db_inv_insert_turno)
next
  case GET_turnos
  with assms show ?thesis by (simp add: get_turnos_def)
next
  case (GET_turno_pdf j)
  with assms show ?thesis by (simp add: get_turno_pdf_same)
next
  case (PUT_turno j rq)
  with assms fst_put_turno [of int4 j rq db] show ?thesis
    by (auto simp: db_inv_update_turno)
next
  case (DELETE_turno j)
  with assms show ?thesis
    by (simp add: fst_delete_turno_id db_inv_delete_turno)
qed

lemma retirado_handle:
  assumes "retirado i db"
  shows "retirado i (fst (handle int4 r db))"
proof (cases r)
  case (POST_turno rq now)
  with assms fst_post_turno [of rq now db] show ?thesis
    by (auto simp: fst_post_turno_insertar retirado_insert_turno)
next
  case GET_turnos
  with assms show ?thesis by (simp add: get_turnos_def)
next
  case (GET_turno_pdf j)
  with assms show ?thesis by (simp add: get_turno_pdf_same)
next
  case (PUT_turno j rq)
  with assms fst_put_turno [of int4 j rq db] show ?thesis
    by (auto simp: retirado_update_turno)
next
  case (DELETE_turno j)
  with assms show ?thesis
    by (simp add: fst_delete_turno_id retirado_delete_turno)
qed

lemma esquema_handle:
  assumes "esquema db"
  shows "esquema (fst (handle int4 r db))"
proof (cases r)
  case (POST_turno rq now)
  with assms fst_post_turno [of rq now db] show ?thesis
    by (auto simp: fst_post_turno_insertar esquema_insert_turno)
next
  case GET_turnos
  with assms show ?thesis by (simp add: get_turnos_def)
next
  case (GET_turno_pdf j)
  with assms show ?thesis by (simp add: get_turno_pdf_same)
next
  case (PUT_turno j rq)
  with assms fst_put_turno [of int4 j rq db] show ?thesis
    by (auto simp: esquema_update_turno)
next
  case (DELETE_turno j)
  with assms show ?thesis
    by (simp add: fst_delete_turno_id esquema_delete_turno)
qed

lemma estable_handle:
  assumes "estable i db"
  shows "estable i (fst (handle int4 r db))"
  using assms by (simp add: estable_def db_inv_handle retirado_handle)

lemma estable_run:
  assumes "estable i db"
  shows "estable i (fst (run int4 rs db))"
  using assms
proof (induction rs arbitrary: db)
  case Nil
  then show ?case by simp
next
  case (Cons r rs)
  from Cons.prems have "estable i (fst (handle int4 r db))" by (rule estable_handle)
  then have "estable i (fst (run int4 rs (fst (handle int4 r db))))" by (rule Cons.IH)
  then show ?case by (simp only: fst_run_Cons)
qed

lemma db_inv_run:
  assumes "db_inv db"
  shows "db_inv (fst (run int4 rs db))"
  using assms
proof (induction rs arbitrary: db)
  case Nil
  then show ?case by simp
next
  case (Cons r rs)
  from Cons.prems have "db_inv (fst (handle int4 r db))" by (rule db_inv_handle)
  then have "db_inv (fst (run int4 rs (fst (handle int4 r db))))" by (rule Cons.IH)
  then show ?case by (simp only: fst_run_Cons)
qed

lemma esquema_run:
  assumes "esquema db"
  shows "esquema (fst (run int4 rs db))"
  using assms
proof (induction rs arbitrary: db)
  case Nil
  then show ?case by simp
next
  case (Cons r rs)
  from Cons.prems have "esquema (fst (handle int4 r db))" by (rule esquema_handle)
  then have "esquema (fst (run int4 rs (fst (handle int4 r db))))" by (rule Cons.IH)
  then show ?case by (simp only: fst_run_Cons)
qed

section \<open>Requests rejected, labels minted\<close>

lemma status_post_turno_insertar:
  "status (snd (post_turno_insertar rq tk now db)) = 200 \<or>
   status (snd (post_turno_insertar rq tk now db)) = 500"
  by (simp add: post_turno_insertar_def recien_asignado_def json_def status_json_def
      split: prod.split sum.split list.split)

lemma post_turno_error_same:
  assumes "post_turno rq now db = (db', res)" and "status res = 400 \<or> status res = 404"
  shows "db' = db"
proof (cases "post_turno_consultar rq db")
  case None
  with assms(1) have "res = snd (post_turno_insertar rq (generarTicket db) now db)"
    by (simp add: post_turno_def)
  with assms(2) status_post_turno_insertar [of rq "generarTicket db" now db]
  show ?thesis by auto
next
  case (Some a)
  with assms(1) show ?thesis by (simp add: post_turno_def)
qed

lemma put_turno_error_same:
  assumes "put_turno int4 idtxt rq db = (db', res)" and "status res = 400 \<or> status res = 404"
  shows "db' = db"
proof (cases "falsy (body_nombre rq) \<or> falsy (body_solicitud rq)")
  case True
  with assms(1) show ?thesis by (simp add: put_turno_falta)
next
  case False
  let ?n = "str (body_nombre rq)" and ?s = "str (body_solicitud rq)"
  from update_turno_shape [of int4 db ?n ?s idtxt] show ?thesis
  proof (elim disjE exE conjE)
    fix e
    assume "update_turno int4 db ?n ?s idtxt = (db, Inl e)"
    with False assms(1) show ?thesis by (simp add: put_turno_def)
  next
    fix i n'
    assume u: "update_turno int4 db ?n ?s idtxt =
        (db\<lparr>turnos := map (\<lambda>t. if id_pk t = i then t\<lparr>nombre := n', solicitud := ?s\<rparr> else t)
           (turnos db)\<rparr>,
         Inr (map (\<lambda>t. t\<lparr>nombre := n', solicitud := ?s\<rparr>)
           (filter (\<lambda>t. id_pk t = i) (turnos db))))"
    show ?thesis
    proof (cases "i \<in> set (map id_pk (turnos db))")
      case True
      then obtain t rest where "filter (\<lambda>t. id_pk t = i) (turnos db) = t # rest"
        by (rule filter_some)
      with False u assms show ?thesis by (auto simp: put_turno_def json_def)
    next
      case False
      with \<open>\<not> (falsy (body_nombre rq) \<or> falsy (body_solicitud rq))\<close> u assms(1)
      show ?thesis by (simp add: put_turno_def filter_none map_unchanged)
    qed
  qed
qed

lemma delete_turno_id_error_same:
  assumes "delete_turno_id int4 idtxt db = (db', res)" and "status res = 400 \<or> status res = 404"
  shows "db' = db"
proof (cases "int4 idtxt")
  case None
  with assms(1) show ?thesis by (simp add: delete_turno_id_rechazado)
next
  case (Some i)
  show ?thesis
  proof (cases "i \<in> set (map id_pk (turnos db))")
    case True
    then obtain t rest where "filter (\<lambda>t. id_pk t = i) (turnos db) = t # rest"
      by (rule filter_some)
    with Some assms show ?thesis by (auto simp: delete_turno_id_presente json_def)
  next
    case False
    with Some assms(1) show ?thesis by (simp add: delete_turno_id_ausente)
  qed
qed

lemma ticket_of_recien_asignado: "ticket_of (recien_asignado rq t) = Some (ticket t)"
  by (simp add: ticket_of_def recien_asignado_def json_def)

text \<open>
  One request changes the number of rows in one of two ways: it adds one row, and then its
  response carries the label of the count before plus one; or it does not add any.
\<close>

lemma length_post_turno:
  "(length (turnos (fst (post_turno rq now db))) = length (turnos db) + 1 \<and>
    ticket_of (snd (post_turno rq now db)) = Some (generarTicket db)) \<or>
   length (turnos (fst (post_turno rq now db))) = length (turnos db)"
proof -
  from post_turno_shape [of rq now db] show ?thesis
  proof
    assume "fst (post_turno rq now db) = db"
    then show ?thesis by simp
  next
    assume p: "post_turno rq now db = post_turno_insertar rq (generarTicket db) now db"
    from post_turno_insertar_shape [of rq "generarTicket db" now db] show ?thesis
    proof (elim disjE exE conjE)
      fix t tk'
      assume "varchar 50 (generarTicket db) = Inr tk'" and "ticket t = tk'"
        and "turnos (fst (post_turno_insertar rq (generarTicket db) now db)) = turnos db @ [t]"
        and "snd (post_turno_insertar rq (generarTicket db) now db) = recien_asignado rq t"
      moreover from this(1) have "tk' = generarTicket db"
        unfolding generarTicket_eq by (rule varchar_label)
      ultimately show ?thesis by (simp add: p ticket_of_recien_asignado)
    qed (simp add: p)
  qed
qed

lemma length_handle:
  "(length (turnos (fst (handle int4 r db))) = length (turnos db) + 1 \<and>
    ticket_of (snd (handle int4 r db)) = Some (generarTicket db)) \<or>
   length (turnos (fst (handle int4 r db))) \<le> length (turnos db)"
proof (cases r)
  case (POST_turno rq now)
  with length_post_turno [of rq now db] show ?thesis by auto
next
  case GET_turnos
  then show ?thesis by (simp add: get_turnos_def)
next
  case (GET_turno_pdf j)
  then show ?thesis by (simp add: get_turno_pdf_same)
next
  case (PUT_turno j rq)
  with fst_put_turno [of int4 j rq db]
    fst_update_turno [of int4 db "str (body_nombre rq)" "str (body_solicitud rq)" j]
  show ?thesis by auto
next
  case (DELETE_turno j)
  with fst_delete_turno [of int4 db j] show ?thesis
    by (auto simp: fst_delete_turno_id)
qed

lemma minted_no_deletion:
  assumes "no_deletion int4 rs db"
  shows "length (turnos db) \<le> length (turnos (fst (run int4 rs db))) \<and>
    minted int4 rs db =
      map (\<lambda>k. ''T-'' @ padStart 4 (CHR ''0'') (String_nat k))
        [length (turnos db) + 1 ..< length (turnos (fst (run int4 rs db))) + 1]"
  using assms
proof (induction rs arbitrary: db)
  case Nil
  then show ?case by simp
next
  case (Cons r rs)
  let ?db1 = "fst (handle int4 r db)" and ?res = "snd (handle int4 r db)"
  let ?c = "length (turnos db)" and ?c1 = "length (turnos ?db1)"
  let ?c2 = "length (turnos (fst (run int4 rs ?db1)))"
  let ?label = "\<lambda>k. ''T-'' @ padStart 4 (CHR ''0'') (String_nat k)"
  from Cons.prems have le: "?c \<le> ?c1" and nd: "no_deletion int4 rs ?db1"
    by (simp_all split: prod.splits)
  from nd have ih: "?c1 \<le> ?c2" "minted int4 rs ?db1 = map ?label [?c1 + 1 ..< ?c2 + 1]"
    using Cons.IH [of ?db1] by simp_all
  have m: "minted int4 (r # rs) db =
      (if ?c < ?c1 then (case ticket_of ?res of None \<Rightarrow> [] | Some tk \<Rightarrow> [tk]) else []) @
      minted int4 rs ?db1"
    by (simp split: prod.splits)
  from length_handle [of int4 r db] show ?case
  proof
    assume a: "?c1 = ?c + 1 \<and> ticket_of ?res = Some (generarTicket db)"
    with ih(1) have "[?c + 1 ..< ?c2 + 1] = (?c + 1) # [?c1 + 1 ..< ?c2 + 1]"
      by (simp add: upt_conv_Cons)
    with a ih show ?thesis
      by (simp only: fst_run_Cons m) (simp add: generarTicket_eq)
  next
    assume "?c1 \<le> ?c"
    with le have "?c1 = ?c" by simp
    with ih show ?thesis by (simp only: fst_run_Cons m) simp
  qed
qed

lemma varchar_Inl: "varchar n s = Inl e \<Longrightarrow> e = string_data_right_truncation"
  by (auto simp: varchar_def split: if_splits)

lemma insert_turno_unique:
  assumes "snd (insert_turno db u n s tk now) = Inl (unique_violation c)"
  shows "insert_turno db u n s tk now =
    (db\<lparr>turnos_id_seq := turnos_id_seq db + 1\<rparr>, Inl (unique_violation c))"
  using assms
  by (auto simp: insert_turno_def Let_def dest: varchar_Inl split: sum.splits if_splits)

section \<open>The lines of the receipt\<close>

lemma split_lf_whole: "CHR 0x0A \<notin> set s \<Longrightarrow> split_lf s = [s]"
  by (induction s) auto

lemma parrafos_comprobante:
  "parrafos (comprobante t f g) =
     [titulo, ''Sistema de Turnos ManyChat'', ''Ticket: '' @ ticket t, ''Nombre: '' @ nombre t,
      ''ID Usuario: '' @ id_usuario t, ''Fecha y Hora: '' @ f, ''Solicitud:'', solicitud t, pie,
      ''Generado el '' @ g]"
  by (simp add: comprobante_def)

lemma lineas_comprobante:
  assumes "CHR 0x0A \<notin> set (ticket t)" and "CHR 0x0A \<notin> set (nombre t)"
    and "CHR 0x0A \<notin> set (id_usuario t)"
    and "wrap titulo = [titulo]"
    and "wrap ''Sistema de Turnos ManyChat'' = [''Sistema de Turnos ManyChat'']"
    and "wrap (''Ticket: '' @ ticket t) = [''Ticket: '' @ ticket t]"
    and "wrap (''Nombre: '' @ nombre t) = [''Nombre: '' @ nombre t]"
    and "wrap (''ID Usuario: '' @ id_usuario t) = [''ID Usuario: '' @ id_usuario t]"
  shows "\<exists>rest. lineas wrap (comprobante t f g) =
    titulo # ''Sistema de Turnos ManyChat'' # (''Ticket: '' @ ticket t) #
    (''Nombre: '' @ nombre t) # (''ID Usuario: '' @ id_usuario t) # rest"
proof -
  have "split_lf titulo = [titulo]"
    by (rule split_lf_whole) (simp add: titulo_def)
  moreover have "split_lf ''Sistema de Turnos ManyChat'' = [''Sistema de Turnos ManyChat'']"
    by (rule split_lf_whole) simp
  moreover from assms(1) have "split_lf (''Ticket: '' @ ticket t) = [''Ticket: '' @ ticket t]"
    by (intro split_lf_whole) simp
  moreover from assms(2) have "split_lf (''Nombre: '' @ nombre t) = [''Nombre: '' @ nombre t]"
    by (intro split_lf_whole) simp
  moreover from assms(3)
  have "split_lf (''ID Usuario: '' @ id_usuario t) = [''ID Usuario: '' @ id_usuario t]"
    by (intro split_lf_whole) simp
  moreover have sing: "[x] @ ys = x # ys" for x :: string and ys
    by simp
  ultimately show ?thesis
    using assms(4-8)
    by (simp add: lineas_def parrafos_comprobante sing del: append.simps split_lf.simps)
qed

section \<open>The claims\<close>

text \<open>
  C1 (amended). On a table that satisfies its schema and whose sequence is not exhausted,
  the first \<open>POST /turno\<close> of a user who has no row, with three non-empty fields that the
  database accepts (no character NUL, \<open>id_usuario\<close> and \<open>nombre\<close> of at most 255
  characters), appends one row for that user. Its \<open>ticket\<close> is \<open>T-\<close> followed by a string
  of digits whose value is the number of rows before the insertion plus one; that string
  has exactly four characters (leading zeros) while the number is below 10000, and from
  10000 on it is the plain decimal form \<open>String(total + 1)\<close>. The response carries the same
  label.
\<close>

theorem first_post_turno_label:
  assumes "esquema db" and "turnos_id_seq db < 2147483647"
    and "pide rq u n s" and "u \<noteq> []" and "n \<noteq> []" and "s \<noteq> []"
    and "texto u" and "texto n" and "texto s"
    and "length u \<le> 255" and "length n \<le> 255"
    and "u \<notin> set (map id_usuario (turnos db))"
  shows "let c = length (turnos db);
             ds = padStart 4 (CHR ''0'') (String_nat (c + 1));
             t = \<lparr>id_pk = turnos_id_seq db + 1, id_usuario = u, nombre = n, solicitud = s,
                  ticket = ''T-'' @ ds, fecha = now\<rparr>
         in post_turno rq now db =
              (db\<lparr>turnos_id_seq := turnos_id_seq db + 1, turnos := turnos db @ [t]\<rparr>,
               recien_asignado rq t) \<and>
            ticket_of (recien_asignado rq t) = Some (''T-'' @ ds) \<and>
            list_all is_digit ds \<and> decimal_value ds = c + 1 \<and>
            (if c + 1 < 10000 then length ds = 4 else ds = String_nat (c + 1))"
proof -
  have "post_turno rq now db =
      (let t = \<lparr>id_pk = turnos_id_seq db + 1, id_usuario = u, nombre = n, solicitud = s,
                 ticket = generarTicket db, fecha = now\<rparr>
       in (db\<lparr>turnos_id_seq := turnos_id_seq db + 1, turnos := turnos db @ [t]\<rparr>,
           recien_asignado rq t))"
    using assms(3-11,1,2,12) by (rule post_turno_crea)
  then show ?thesis
    using padStart_digits [of "length (turnos db) + 1"]
    by (simp add: Let_def generarTicket_eq ticket_of_recien_asignado)
qed

theorem first_post_turno_label_witness:
  "esquema vacia \<and> turnos_id_seq vacia < 2147483647 \<and>
   pide (pedir ''u1'' ''Ann'' ''Q1'') ''u1'' ''Ann'' ''Q1'' \<and>
   texto ''u1'' \<and> texto ''Ann'' \<and> texto ''Q1'' \<and>
   ''u1'' \<notin> set (map id_usuario (turnos vacia)) \<and>
   post_turno (pedir ''u1'' ''Ann'' ''Q1'') 7 vacia =
     (\<lparr>turnos = [\<lparr>id_pk = 1, id_usuario = ''u1'', nombre = ''Ann'', solicitud = ''Q1'',
                   ticket = ''T-0001'', fecha = 7\<rparr>],
       turnos_id_seq = 1\<rparr>,
      recien_asignado (pedir ''u1'' ''Ann'' ''Q1'')
        \<lparr>id_pk = 1, id_usuario = ''u1'', nombre = ''Ann'', solicitud = ''Q1'',
          ticket = ''T-0001'', fecha = 7\<rparr>)"
proof -
  have a: "esquema vacia" by (rule esquema_vacia)
  have a': "turnos_id_seq vacia < 2147483647" by (simp add: vacia_def)
  have b: "pide (pedir ''u1'' ''Ann'' ''Q1'') ''u1'' ''Ann'' ''Q1''"
    by (simp add: pide_def pedir_def)
  have c: "''u1'' \<notin> set (map id_usuario (turnos vacia))" by (simp add: vacia_def)
  have t: "texto ''u1''" "texto ''Ann''" "texto ''Q1''" by (simp_all add: texto_def)
  have d: "padStart 4 (CHR ''0'') (String_nat (Suc 0)) = ''0001''"
    by code_simp
  from first_post_turno_label [OF a a' b _ _ _ t _ _ c, of 7]
  have "post_turno (pedir ''u1'' ''Ann'' ''Q1'') 7 vacia =
     (\<lparr>turnos = [\<lparr>id_pk = 1, id_usuario = ''u1'', nombre = ''Ann'', solicitud = ''Q1'',
                   ticket = ''T-0001'', fecha = 7\<rparr>],
       turnos_id_seq = 1\<rparr>,
      recien_asignado (pedir ''u1'' ''Ann'' ''Q1'')
        \<lparr>id_pk = 1, id_usuario = ''u1'', nombre = ''Ann'', solicitud = ''Q1'',
          ticket = ''T-0001'', fecha = 7\<rparr>)"
    by (simp add: Let_def vacia_def d)
  with a a' b c t show ?thesis by blast
qed

text \<open>
  C1 as stated fails: a \<open>nombre\<close> of 256 characters passes the validation of the handler,
  the \<open>INSERT\<close> is rejected for the width of the column, the answer is status 500 and no
  row is stored.
\<close>

theorem first_post_turno_label_counterexample:
  "pide (pedir ''u1'' (replicate 256 (CHR ''x'')) ''Q1'') ''u1'' (replicate 256 (CHR ''x'')) ''Q1'' \<and>
   post_turno (pedir ''u1'' (replicate 256 (CHR ''x'')) ''Q1'') 7 vacia =
     (vacia, \<lparr>status = 500, payload = Error ''Error al procesar el turno''\<rparr>)"
  by code_simp

text \<open>
  C2. When a row with the \<open>id_usuario\<close> of the body exists, \<open>POST /turno\<close> with non-empty
  fields answers with the columns of that row (the first one the \<open>SELECT\<close> returns, and the
  only one under the schema): its \<open>ticket\<close>, \<open>nombre\<close>, \<open>solicitud\<close> and \<open>fecha\<close>, whatever
  \<open>nombre\<close> and \<open>solicitud\<close> the body carries. The database it leaves is the one it found:
  no row is added, no column changes, the count is the same.
\<close>

theorem second_post_turno_returns_existing:
  assumes "pide rq u n s" and "u \<noteq> []" and "n \<noteq> []" and "s \<noteq> []"
    and "u \<in> set (map id_usuario (turnos db))"
  shows "\<exists>t. List.find (\<lambda>t. id_usuario t = u) (turnos db) = Some t \<and>
           post_turno rq now db =
             (db, json (Asignado \<lparr>r_ticket = ticket t, r_nombre = nombre t,
                r_solicitud = solicitud t, r_fecha = fecha t,
                r_mensaje = ''Ya tienes un turno asignado: '' @ ticket t,
                r_pdf_url = pdf_url rq t\<rparr>)) \<and>
           turnos (fst (post_turno rq now db)) = turnos db \<and>
           select_count (fst (post_turno rq now db)) = select_count db"
proof -
  from assms(5) obtain t ts where sel: "select_by_id_usuario db u = t # ts"
    by (rule select_by_id_usuario_hd)
  then have "List.find (\<lambda>t. id_usuario t = u) (turnos db) = Some t"
    by (simp add: select_by_id_usuario_def find_filter_hd)
  moreover from assms(1-4) sel have "post_turno rq now db = (db, ya_asignado rq t)"
    by (rule post_turno_existe)
  ultimately show ?thesis by (simp add: ya_asignado_def)
qed

theorem second_post_turno_returns_existing_witness:
  "pide (pedir ''u1'' ''Ann2'' ''Q2'') ''u1'' ''Ann2'' ''Q2'' \<and>
   fst (post_turno (pedir ''u1'' ''Ann'' ''Q1'') 1 vacia) =
     \<lparr>turnos = [\<lparr>id_pk = 1, id_usuario = ''u1'', nombre = ''Ann'', solicitud = ''Q1'',
                  ticket = ''T-0001'', fecha = 1\<rparr>], turnos_id_seq = 1\<rparr> \<and>
   ''u1'' \<in> set (map id_usuario (turnos
     \<lparr>turnos = [\<lparr>id_pk = 1, id_usuario = ''u1'', nombre = ''Ann'', solicitud = ''Q1'',
                  ticket = ''T-0001'', fecha = 1\<rparr>], turnos_id_seq = 1\<rparr>)) \<and>
   post_turno (pedir ''u1'' ''Ann2'' ''Q2'') 2
     \<lparr>turnos = [\<lparr>id_pk = 1, id_usuario = ''u1'', nombre = ''Ann'', solicitud = ''Q1'',
                  ticket = ''T-0001'', fecha = 1\<rparr>], turnos_id_seq = 1\<rparr> =
    (\<lparr>turnos = [\<lparr>id_pk = 1, id_usuario = ''u1'', nombre = ''Ann'', solicitud = ''Q1'',
                  ticket = ''T-0001'', fecha = 1\<rparr>], turnos_id_seq = 1\<rparr>,
     json (Asignado \<lparr>r_ticket = ''T-0001'', r_nombre = ''Ann'', r_solicitud = ''Q1'',
       r_fecha = 1, r_mensaje = ''Ya tienes un turno asignado: T-0001'',
       r_pdf_url = ''http://localhost:5000/turno/1/pdf''\<rparr>))"
proof -
  let ?t = "\<lparr>id_pk = 1, id_usuario = ''u1'', nombre = ''Ann'', solicitud = ''Q1'',
             ticket = ''T-0001'', fecha = 1\<rparr>"
  let ?db = "\<lparr>turnos = [?t], turnos_id_seq = 1\<rparr>"
  have a: "pide (pedir ''u1'' ''Ann2'' ''Q2'') ''u1'' ''Ann2'' ''Q2''"
    by (simp add: pide_def pedir_def)
  have b: "fst (post_turno (pedir ''u1'' ''Ann'' ''Q1'') 1 vacia) = ?db"
    by code_simp
  have c: "''u1'' \<in> set (map id_usuario (turnos ?db))" by simp
  have d: "pdf_url (pedir ''u1'' ''Ann2'' ''Q2'') ?t = ''http://localhost:5000/turno/1/pdf''"
    by code_simp
  from second_post_turno_returns_existing [OF a _ _ _ c, of 2]
  have "post_turno (pedir ''u1'' ''Ann2'' ''Q2'') 2 ?db =
    (?db, json (Asignado \<lparr>r_ticket = ''T-0001'', r_nombre = ''Ann'', r_solicitud = ''Q1'',
       r_fecha = 1, r_mensaje = ''Ya tienes un turno asignado: T-0001'',
       r_pdf_url = ''http://localhost:5000/turno/1/pdf''\<rparr>))"
    using d by auto
  with a b c show ?thesis by (simp only: simp_thms)
qed

text \<open>
  C3 (amended). \<open>PUT /turno/:id\<close> with non-empty \<open>nombre\<close> and \<open>solicitud\<close> that the database
  accepts (no character NUL, \<open>nombre\<close> of at most 255 characters), for an \<open>:id\<close> that the
  database reads as the \<open>id\<close> of a row, answers with the row of that \<open>id\<close> carrying the new
  \<open>nombre\<close> and \<open>solicitud\<close>. Row by row, the table it leaves has the \<open>id\<close>, \<open>id_usuario\<close>,
  \<open>ticket\<close> and \<open>fecha\<close> it had; the row of that \<open>id\<close> differs in \<open>nombre\<close> and \<open>solicitud\<close>
  only, and every other row is the same. The sequence is untouched.
\<close>

theorem put_turno_frame:
  assumes "body_nombre rq = Some n" and "body_solicitud rq = Some s"
    and "n \<noteq> []" and "s \<noteq> []"
    and "texto n" and "texto s" and "length n \<le> 255"
    and "int4 idtxt = Some i"
    and "i \<in> set (map id_pk (turnos db))"
  shows "\<exists>t db'. List.find (\<lambda>t. id_pk t = i) (turnos db) = Some t \<and>
           put_turno int4 idtxt rq db =
             (db', json (Mensaje ''Turno actualizado correctamente''
                     (t\<lparr>nombre := n, solicitud := s\<rparr>))) \<and>
           turnos_id_seq db' = turnos_id_seq db \<and>
           length (turnos db') = length (turnos db) \<and>
           (\<forall>k < length (turnos db).
              id_pk (turnos db' ! k) = id_pk (turnos db ! k) \<and>
              id_usuario (turnos db' ! k) = id_usuario (turnos db ! k) \<and>
              ticket (turnos db' ! k) = ticket (turnos db ! k) \<and>
              fecha (turnos db' ! k) = fecha (turnos db ! k) \<and>
              (if id_pk (turnos db ! k) = i
               then turnos db' ! k = (turnos db ! k)\<lparr>nombre := n, solicitud := s\<rparr>
               else turnos db' ! k = turnos db ! k))"
proof -
  from assms(9) obtain t rest where sel: "filter (\<lambda>t. id_pk t = i) (turnos db) = t # rest"
    by (rule filter_some)
  then have "List.find (\<lambda>t. id_pk t = i) (turnos db) = Some t"
    by (rule find_filter_hd)
  moreover from assms(1-4) have "\<not> falsy (body_nombre rq)" "\<not> falsy (body_solicitud rq)"
    by (simp_all add: falsy_simps)
  then have "put_turno int4 idtxt rq db =
    (db\<lparr>turnos := map (\<lambda>t. if id_pk t = i then t\<lparr>nombre := n, solicitud := s\<rparr> else t)
       (turnos db)\<rparr>,
     json (Mensaje ''Turno actualizado correctamente'' (t\<lparr>nombre := n, solicitud := s\<rparr>)))"
    using sel assms(1,2,5-8) by (simp add: put_turno_presente str_Some)
  ultimately show ?thesis by simp
qed

theorem put_turno_frame_witness:
  "body_nombre (pedir ''u1'' ''Bob'' ''New request'') = Some ''Bob'' \<and>
   body_solicitud (pedir ''u1'' ''Bob'' ''New request'') = Some ''New request'' \<and>
   texto ''Bob'' \<and> texto ''New request'' \<and> int4in_decimal ''1'' = Some 1 \<and>
   1 \<in> set (map id_pk (turnos
     \<lparr>turnos = [\<lparr>id_pk = 1, id_usuario = ''u1'', nombre = ''Ann'', solicitud = ''Q1'',
                  ticket = ''T-0001'', fecha = 5\<rparr>,
                \<lparr>id_pk = 2, id_usuario = ''u2'', nombre = ''Cy'', solicitud = ''Q2'',
                  ticket = ''T-0002'', fecha = 6\<rparr>], turnos_id_seq = 2\<rparr>)) \<and>
   put_turno int4in_decimal ''1'' (pedir ''u1'' ''Bob'' ''New request'')
     \<lparr>turnos = [\<lparr>id_pk = 1, id_usuario = ''u1'', nombre = ''Ann'', solicitud = ''Q1'',
                  ticket = ''T-0001'', fecha = 5\<rparr>,
                \<lparr>id_pk = 2, id_usuario = ''u2'', nombre = ''Cy'', solicitud = ''Q2'',
                  ticket = ''T-0002'', fecha = 6\<rparr>], turnos_id_seq = 2\<rparr> =
    (\<lparr>turnos = [\<lparr>id_pk = 1, id_usuario = ''u1'', nombre = ''Bob'',
                  solicitud = ''New request'', ticket = ''T-0001'', fecha = 5\<rparr>,
                \<lparr>id_pk = 2, id_usuario = ''u2'', nombre = ''Cy'', solicitud = ''Q2'',
                  ticket = ''T-0002'', fecha = 6\<rparr>], turnos_id_seq = 2\<rparr>,
     json (Mensaje ''Turno actualizado correctamente''
       \<lparr>id_pk = 1, id_usuario = ''u1'', nombre = ''Bob'', solicitud = ''New request'',
         ticket = ''T-0001'', fecha = 5\<rparr>)) \<and>
   snd (get_turno_pdf int4in_decimal ''1''
     \<lparr>turnos = [\<lparr>id_pk = 1, id_usuario = ''u1'', nombre = ''Bob'',
                  solicitud = ''New request'', ticket = ''T-0001'', fecha = 5\<rparr>,
                \<lparr>id_pk = 2, id_usuario = ''u2'', nombre = ''Cy'', solicitud = ''Q2'',
                  ticket = ''T-0002'', fecha = 6\<rparr>], turnos_id_seq = 2\<rparr>) =
     \<lparr>status = 200, payload = Pdf ''attachment; filename=turno-T-0001.pdf''
       \<lparr>id_pk = 1, id_usuario = ''u1'', nombre = ''Bob'', solicitud = ''New request'',
         ticket = ''T-0001'', fecha = 5\<rparr>\<rparr>"
proof -
  let ?r1 = "\<lparr>id_pk = 1, id_usuario = ''u1'', nombre = ''Ann'', solicitud = ''Q1'',
              ticket = ''T-0001'', fecha = 5\<rparr>"
  let ?r2 = "\<lparr>id_pk = 2, id_usuario = ''u2'', nombre = ''Cy'', solicitud = ''Q2'',
              ticket = ''T-0002'', fecha = 6\<rparr>"
  let ?db = "\<lparr>turnos = [?r1, ?r2], turnos_id_seq = 2\<rparr>"
  let ?rq = "pedir ''u1'' ''Bob'' ''New request''"
  have a: "body_nombre ?rq = Some ''Bob''" and b: "body_solicitud ?rq = Some ''New request''"
    by (simp_all add: pedir_def)
  have c: "1 \<in> set (map id_pk (turnos ?db))" by simp
  have x: "texto ''Bob''" "texto ''New request''" by (simp_all add: texto_def)
  have p1: "int4in_decimal ''1'' = Some 1" by code_simp
  have nn: "''Bob'' \<noteq> []" "''New request'' \<noteq> []" "length ''Bob'' \<le> 255" by simp_all
  from put_turno_frame [where ?int4.0 = int4in_decimal and idtxt = "''1''",
      OF a b nn(1) nn(2) x nn(3) p1 c] obtain t db' where
    f: "List.find (\<lambda>t. id_pk t = 1) (turnos ?db) = Some t" and
    p: "put_turno int4in_decimal ''1'' ?rq ?db =
          (db', json (Mensaje ''Turno actualizado correctamente''
          (t\<lparr>nombre := ''Bob'', solicitud := ''New request''\<rparr>)))" and
    q: "turnos_id_seq db' = turnos_id_seq ?db" and
    l: "length (turnos db') = length (turnos ?db)" and
    fr: "\<forall>k < length (turnos ?db).
      (if id_pk (turnos ?db ! k) = 1
       then turnos db' ! k = (turnos ?db ! k)\<lparr>nombre := ''Bob'', solicitud := ''New request''\<rparr>
       else turnos db' ! k = turnos ?db ! k)"
    by auto
  from f have t: "t = ?r1" by simp
  from fr [rule_format, of 0] have r0: "turnos db' ! 0 = ?r1\<lparr>nombre := ''Bob'', solicitud := ''New request''\<rparr>"
    by simp
  from fr [rule_format, of 1] have r1: "turnos db' ! 1 = ?r2" by simp
  from l r0 r1 have "turnos db' = [?r1\<lparr>nombre := ''Bob'', solicitud := ''New request''\<rparr>, ?r2]"
    by (auto simp: list_eq_iff_nth_eq less_Suc_eq)
  with q have "db' = \<lparr>turnos = [?r1\<lparr>nombre := ''Bob'', solicitud := ''New request''\<rparr>, ?r2],
      turnos_id_seq = 2\<rparr>"
    by (cases db') simp
  with p t have "put_turno int4in_decimal ''1'' ?rq ?db =
    (\<lparr>turnos = [?r1\<lparr>nombre := ''Bob'', solicitud := ''New request''\<rparr>, ?r2], turnos_id_seq = 2\<rparr>,
     json (Mensaje ''Turno actualizado correctamente''
       (?r1\<lparr>nombre := ''Bob'', solicitud := ''New request''\<rparr>)))"
    by simp
  moreover have "snd (get_turno_pdf int4in_decimal ''1''
      \<lparr>turnos = [?r1\<lparr>nombre := ''Bob'', solicitud := ''New request''\<rparr>, ?r2], turnos_id_seq = 2\<rparr>) =
     \<lparr>status = 200, payload = Pdf ''attachment; filename=turno-T-0001.pdf''
       (?r1\<lparr>nombre := ''Bob'', solicitud := ''New request''\<rparr>)\<rparr>"
    by (simp add: get_turno_pdf_def select_by_id_def p1)
  ultimately show ?thesis using a b c x p1 by simp
qed

text \<open>
  C3 as stated fails: for the \<open>id\<close> of a row and a \<open>nombre\<close> of 256 characters, which passes
  the validation of the handler, the \<open>UPDATE\<close> is rejected for the width of the column; the
  answer is status 500 and the row is as it was.
\<close>

theorem put_turno_frame_counterexample:
  "body_nombre (pedir ''u1'' (replicate 256 (CHR ''x'')) ''Q'') = Some (replicate 256 (CHR ''x'')) \<and>
   int4in_decimal ''1'' = Some 1 \<and>
   put_turno int4in_decimal ''1'' (pedir ''u1'' (replicate 256 (CHR ''x'')) ''Q'')
     \<lparr>turnos = [\<lparr>id_pk = 1, id_usuario = ''u1'', nombre = ''Ann'', solicitud = ''Q1'',
                  ticket = ''T-0001'', fecha = 5\<rparr>], turnos_id_seq = 1\<rparr> =
    (\<lparr>turnos = [\<lparr>id_pk = 1, id_usuario = ''u1'', nombre = ''Ann'', solicitud = ''Q1'',
                  ticket = ''T-0001'', fecha = 5\<rparr>], turnos_id_seq = 1\<rparr>,
     \<lparr>status = 500, payload = Error ''Error al actualizar turno''\<rparr>)"
  by code_simp

text \<open>
  C4 (amended). While requests are handled one after the other and none of them deletes a
  row, whatever else they are, the labels minted carry the numbers \<open>count + 1\<close>,
  \<open>count + 2\<close>, ... up to the number of rows at the end, where \<open>count\<close> is the number of
  rows at the start: the numbers of the labels are strictly increasing. From the empty
  table, creating rows for u1, u2 and u3 mints \<open>T-0001\<close>, \<open>T-0002\<close>, \<open>T-0003\<close> (the witness,
  with a repeated request, an update and a deletion that finds no row in between).
\<close>

theorem creates_without_deletion_increase:
  assumes "no_deletion int4 rs db"
  shows "let ls = minted int4 rs db;
             c = length (turnos db);
             c' = length (turnos (fst (run int4 rs db)))
         in c \<le> c' \<and>
            ls = map (\<lambda>k. ''T-'' @ padStart 4 (CHR ''0'') (String_nat k)) [c + 1 ..< c' + 1] \<and>
            map ticket_number ls = [c + 1 ..< c' + 1] \<and>
            sorted_wrt (<) (map ticket_number ls)"
proof -
  let ?c = "length (turnos db)" and ?c' = "length (turnos (fst (run int4 rs db)))"
  let ?ls = "minted int4 rs db"
  from assms have le: "?c \<le> ?c'"
    and ls: "?ls = map (\<lambda>k. ''T-'' @ padStart 4 (CHR ''0'') (String_nat k)) [?c + 1 ..< ?c' + 1]"
    by (simp_all add: minted_no_deletion)
  have nums: "map ticket_number ?ls = [?c + 1 ..< ?c' + 1]"
    unfolding ls by (simp add: ticket_number_label map_idI del: append.simps upt_Suc)
  then have "sorted_wrt (<) (map ticket_number ?ls)"
    by (simp only: sorted_wrt_upt)
  with le ls nums show ?thesis by (simp only: Let_def simp_thms)
qed

theorem creates_without_deletion_increase_witness:
  "no_deletion int4in_decimal
     [POST_turno (pedir ''u1'' ''Ann'' ''Q1'') 1, POST_turno (pedir ''u1'' ''Ann2'' ''Q9'') 2,
      POST_turno (pedir ''u2'' ''Bo'' ''Q2'') 3, PUT_turno ''1'' (pedir ''u1'' ''Bob'' ''Q8''),
      DELETE_turno ''999'', POST_turno (pedir ''u3'' ''Cy'' ''Q3'') 4] vacia \<and>
   minted int4in_decimal
     [POST_turno (pedir ''u1'' ''Ann'' ''Q1'') 1, POST_turno (pedir ''u1'' ''Ann2'' ''Q9'') 2,
      POST_turno (pedir ''u2'' ''Bo'' ''Q2'') 3, PUT_turno ''1'' (pedir ''u1'' ''Bob'' ''Q8''),
      DELETE_turno ''999'', POST_turno (pedir ''u3'' ''Cy'' ''Q3'') 4] vacia =
     [''T-0001'', ''T-0002'', ''T-0003''] \<and>
   map ticket_number (minted int4in_decimal
     [POST_turno (pedir ''u1'' ''Ann'' ''Q1'') 1, POST_turno (pedir ''u1'' ''Ann2'' ''Q9'') 2,
      POST_turno (pedir ''u2'' ''Bo'' ''Q2'') 3, PUT_turno ''1'' (pedir ''u1'' ''Bob'' ''Q8''),
      DELETE_turno ''999'', POST_turno (pedir ''u3'' ''Cy'' ''Q3'') 4] vacia) = [1, 2, 3] \<and>
   minted int4in_decimal
     [POST_turno (pedir ''u1'' ''Ann'' ''Q1'') 1, POST_turno (pedir ''u2'' ''Bo'' ''Q2'') 2,
      POST_turno (pedir ''u3'' ''Cy'' ''Q3'') 3] vacia = [''T-0001'', ''T-0002'', ''T-0003'']"
proof -
  let ?rs = "[POST_turno (pedir ''u1'' ''Ann'' ''Q1'') 1, POST_turno (pedir ''u1'' ''Ann2'' ''Q9'') 2,
      POST_turno (pedir ''u2'' ''Bo'' ''Q2'') 3, PUT_turno ''1'' (pedir ''u1'' ''Bob'' ''Q8''),
      DELETE_turno ''999'', POST_turno (pedir ''u3'' ''Cy'' ''Q3'') 4]"
  let ?qs = "[POST_turno (pedir ''u1'' ''Ann'' ''Q1'') 1, POST_turno (pedir ''u2'' ''Bo'' ''Q2'') 2,
      POST_turno (pedir ''u3'' ''Cy'' ''Q3'') 3]"
  have a: "no_deletion int4in_decimal ?rs vacia" by code_simp
  have a': "no_deletion int4in_decimal ?qs vacia" by code_simp
  have e: "map (\<lambda>k. ''T-'' @ padStart 4 (CHR ''0'') (String_nat k))
      [length (turnos vacia) + 1 ..< length (turnos (fst (run int4in_decimal ?rs vacia))) + 1] =
      [''T-0001'', ''T-0002'', ''T-0003'']"
    by code_simp
  have e': "map (\<lambda>k. ''T-'' @ padStart 4 (CHR ''0'') (String_nat k))
      [length (turnos vacia) + 1 ..< length (turnos (fst (run int4in_decimal ?qs vacia))) + 1] =
      [''T-0001'', ''T-0002'', ''T-0003'']"
    by code_simp
  have f: "[length (turnos vacia) + 1 ..< length (turnos (fst (run int4in_decimal ?rs vacia))) + 1] =
      [1, 2, 3]"
    by code_simp
  note h = creates_without_deletion_increase [OF a, unfolded Let_def]
  from h have "minted int4in_decimal ?rs vacia =
      map (\<lambda>k. ''T-'' @ padStart 4 (CHR ''0'') (String_nat k))
        [length (turnos vacia) + 1 ..< length (turnos (fst (run int4in_decimal ?rs vacia))) + 1]"
    by blast
  then have g1: "minted int4in_decimal ?rs vacia = [''T-0001'', ''T-0002'', ''T-0003'']"
    by (simp only: e)
  from h have "map ticket_number (minted int4in_decimal ?rs vacia) =
      [length (turnos vacia) + 1 ..< length (turnos (fst (run int4in_decimal ?rs vacia))) + 1]"
    by blast
  then have g2: "map ticket_number (minted int4in_decimal ?rs vacia) = [1, 2, 3]"
    by (simp only: f)
  note h' = creates_without_deletion_increase [OF a', unfolded Let_def]
  from h' have "minted int4in_decimal ?qs vacia =
      map (\<lambda>k. ''T-'' @ padStart 4 (CHR ''0'') (String_nat k))
        [length (turnos vacia) + 1 ..< length (turnos (fst (run int4in_decimal ?qs vacia))) + 1]"
    by blast
  then have g': "minted int4in_decimal ?qs vacia = [''T-0001'', ''T-0002'', ''T-0003'']"
    by (simp only: e')
  from a g1 g2 g' show ?thesis by blast
qed

text \<open>
  C4 as stated fails: with a \<open>DELETE\<close> between sequential creations the count drops, and
  the next label repeats the last one.
\<close>

theorem creates_with_deletion_counterexample:
  "minted int4in_decimal [POST_turno (pedir ''u1'' ''Ann'' ''Q1'') 1,
     POST_turno (pedir ''u2'' ''Bo'' ''Q2'') 2, DELETE_turno ''1'',
     POST_turno (pedir ''u3'' ''Cy'' ''Q3'') 3] vacia =
     [''T-0001'', ''T-0002'', ''T-0002''] \<and>
   \<not> sorted_wrt (<) (map ticket_number [''T-0001'', ''T-0002'', ''T-0002''])"
  by code_simp

text \<open>
  C5 (amended). When the \<open>INSERT\<close> of \<open>POST /turno\<close> fails on the uniqueness of
  \<open>id_usuario\<close>, the handler answers with status 500 and the message of its \<open>catch\<close>, the
  rows of the table are the ones it found, and only the sequence has moved on; it does not
  look the user up again. The \<open>INSERT\<close> fails so whenever, on a table that satisfies its
  schema and whose sequence is not exhausted, the fields are accepted by the database and
  a row already has the \<open>id_usuario\<close> (a row that was not there when the handler looked
  the user up).
\<close>

theorem insert_conflict_answers_500:
  "(snd (insert_turno db (str (body_id_usuario rq)) (str (body_nombre rq))
           (str (body_solicitud rq)) tk now) =
      Inl (unique_violation ''turnos_id_usuario_key'') \<longrightarrow>
      post_turno_insertar rq tk now db =
        (db\<lparr>turnos_id_seq := turnos_id_seq db + 1\<rparr>,
         \<lparr>status = 500, payload = Error ''Error al procesar el turno''\<rparr>) \<and>
      turnos (fst (post_turno_insertar rq tk now db)) = turnos db) \<and>
   (db_inv db \<and> str (body_id_usuario rq) \<in> set (map id_usuario (turnos db)) \<and>
    turnos_id_seq db < 2147483647 \<and>
    texto (str (body_id_usuario rq)) \<and> texto (str (body_nombre rq)) \<and>
    texto (str (body_solicitud rq)) \<and> texto tk \<and>
    length (str (body_id_usuario rq)) \<le> 255 \<and> length (str (body_nombre rq)) \<le> 255 \<and>
    length tk \<le> 50 \<longrightarrow>
      insert_turno db (str (body_id_usuario rq)) (str (body_nombre rq))
        (str (body_solicitud rq)) tk now =
        (db\<lparr>turnos_id_seq := turnos_id_seq db + 1\<rparr>,
         Inl (unique_violation ''turnos_id_usuario_key'')))"
proof (intro conjI impI)
  let ?ins = "insert_turno db (str (body_id_usuario rq)) (str (body_nombre rq))
           (str (body_solicitud rq)) tk now"
  assume a: "snd ?ins = Inl (unique_violation ''turnos_id_usuario_key'')"
  from a have "?ins = (db\<lparr>turnos_id_seq := turnos_id_seq db + 1\<rparr>,
      Inl (unique_violation ''turnos_id_usuario_key''))"
    by (rule insert_turno_unique)
  then show "post_turno_insertar rq tk now db =
        (db\<lparr>turnos_id_seq := turnos_id_seq db + 1\<rparr>,
         \<lparr>status = 500, payload = Error ''Error al procesar el turno''\<rparr>)"
    and "turnos (fst (post_turno_insertar rq tk now db)) = turnos db"
    by (simp_all add: post_turno_insertar_def status_json_def)
next
  assume "db_inv db \<and> str (body_id_usuario rq) \<in> set (map id_usuario (turnos db)) \<and>
    turnos_id_seq db < 2147483647 \<and>
    texto (str (body_id_usuario rq)) \<and> texto (str (body_nombre rq)) \<and>
    texto (str (body_solicitud rq)) \<and> texto tk \<and>
    length (str (body_id_usuario rq)) \<le> 255 \<and> length (str (body_nombre rq)) \<le> 255 \<and>
    length tk \<le> 50"
  then show "insert_turno db (str (body_id_usuario rq)) (str (body_nombre rq))
        (str (body_solicitud rq)) tk now =
        (db\<lparr>turnos_id_seq := turnos_id_seq db + 1\<rparr>,
         Inl (unique_violation ''turnos_id_usuario_key''))"
    by (intro insert_turno_taken db_inv_seq_fresh) simp_all
qed

theorem insert_conflict_answers_500_witness:
  "db_inv \<lparr>turnos = [\<lparr>id_pk = 1, id_usuario = ''u1'', nombre = ''Ann'', solicitud = ''Q1'',
                  ticket = ''T-0001'', fecha = 1\<rparr>], turnos_id_seq = 1\<rparr> \<and>
   str (body_id_usuario (pedir ''u1'' ''Ann'' ''Q1'')) \<in> set (map id_usuario (turnos
     \<lparr>turnos = [\<lparr>id_pk = 1, id_usuario = ''u1'', nombre = ''Ann'', solicitud = ''Q1'',
                  ticket = ''T-0001'', fecha = 1\<rparr>], turnos_id_seq = 1\<rparr>)) \<and>
   snd (insert_turno
     \<lparr>turnos = [\<lparr>id_pk = 1, id_usuario = ''u1'', nombre = ''Ann'', solicitud = ''Q1'',
                  ticket = ''T-0001'', fecha = 1\<rparr>], turnos_id_seq = 1\<rparr>
     ''u1'' ''Ann'' ''Q1'' ''T-0001'' 2) = Inl (unique_violation ''turnos_id_usuario_key'') \<and>
   post_turno_insertar (pedir ''u1'' ''Ann'' ''Q1'') ''T-0001'' 2
     \<lparr>turnos = [\<lparr>id_pk = 1, id_usuario = ''u1'', nombre = ''Ann'', solicitud = ''Q1'',
                  ticket = ''T-0001'', fecha = 1\<rparr>], turnos_id_seq = 1\<rparr> =
     (\<lparr>turnos = [\<lparr>id_pk = 1, id_usuario = ''u1'', nombre = ''Ann'', solicitud = ''Q1'',
                  ticket = ''T-0001'', fecha = 1\<rparr>], turnos_id_seq = 2\<rparr>,
      \<lparr>status = 500, payload = Error ''Error al procesar el turno''\<rparr>)"
proof -
  let ?db = "\<lparr>turnos = [\<lparr>id_pk = 1, id_usuario = ''u1'', nombre = ''Ann'', solicitud = ''Q1'',
                  ticket = ''T-0001'', fecha = 1\<rparr>], turnos_id_seq = 1\<rparr>"
  let ?rq = "pedir ''u1'' ''Ann'' ''Q1''"
  have a: "db_inv ?db" by (simp add: db_inv_def)
  have b: "str (body_id_usuario ?rq) \<in> set (map id_usuario (turnos ?db))"
    by (simp add: pedir_def str_Some)
  have s: "str (body_id_usuario ?rq) = ''u1''" "str (body_nombre ?rq) = ''Ann''"
    "str (body_solicitud ?rq) = ''Q1''"
    by (simp_all add: pedir_def str_Some)
  have f: "turnos_id_seq ?db < 2147483647 \<and>
    texto (str (body_id_usuario ?rq)) \<and> texto (str (body_nombre ?rq)) \<and>
    texto (str (body_solicitud ?rq)) \<and> texto ''T-0001'' \<and>
    length (str (body_id_usuario ?rq)) \<le> 255 \<and> length (str (body_nombre ?rq)) \<le> 255 \<and>
    length ''T-0001'' \<le> 50"
    by (simp add: s texto_def)
  note inst = insert_conflict_answers_500 [of ?db ?rq "''T-0001''" 2]
  from inst a b f have i: "insert_turno ?db (str (body_id_usuario ?rq)) (str (body_nombre ?rq))
        (str (body_solicitud ?rq)) ''T-0001'' 2 =
        (?db\<lparr>turnos_id_seq := turnos_id_seq ?db + 1\<rparr>,
         Inl (unique_violation ''turnos_id_usuario_key''))"
    by blast
  then have j: "snd (insert_turno ?db (str (body_id_usuario ?rq)) (str (body_nombre ?rq))
        (str (body_solicitud ?rq)) ''T-0001'' 2) = Inl (unique_violation ''turnos_id_usuario_key'')"
    by simp
  with inst have "post_turno_insertar ?rq ''T-0001'' 2 ?db =
        (?db\<lparr>turnos_id_seq := turnos_id_seq ?db + 1\<rparr>,
         \<lparr>status = 500, payload = Error ''Error al procesar el turno''\<rparr>)"
    by blast
  with a b j show ?thesis by (simp add: s)
qed

text \<open>
  C5 as stated fails. Two requests for the same new user: both look the user up and read
  the count on the empty table, the first then inserts, and the \<open>INSERT\<close> of the second
  fails on \<open>id_usuario\<close>. The second is answered with status 500, although the row the
  first inserted is there to be found.
\<close>

theorem insert_conflict_counterexample:
  "post_turno_consultar (pedir ''u1'' ''Ann'' ''Q1'') vacia = None \<and>
   generarTicket vacia = ''T-0001'' \<and>
   fst (post_turno (pedir ''u1'' ''Ann'' ''Q1'') 1 vacia) =
     \<lparr>turnos = [\<lparr>id_pk = 1, id_usuario = ''u1'', nombre = ''Ann'', solicitud = ''Q1'',
                  ticket = ''T-0001'', fecha = 1\<rparr>], turnos_id_seq = 1\<rparr> \<and>
   snd (insert_turno
     \<lparr>turnos = [\<lparr>id_pk = 1, id_usuario = ''u1'', nombre = ''Ann'', solicitud = ''Q1'',
                  ticket = ''T-0001'', fecha = 1\<rparr>], turnos_id_seq = 1\<rparr>
     ''u1'' ''Ann'' ''Q1'' ''T-0001'' 2) = Inl (unique_violation ''turnos_id_usuario_key'') \<and>
   snd (post_turno_insertar (pedir ''u1'' ''Ann'' ''Q1'') ''T-0001'' 2
     \<lparr>turnos = [\<lparr>id_pk = 1, id_usuario = ''u1'', nombre = ''Ann'', solicitud = ''Q1'',
                  ticket = ''T-0001'', fecha = 1\<rparr>], turnos_id_seq = 1\<rparr>) =
     \<lparr>status = 500, payload = Error ''Error al procesar el turno''\<rparr> \<and>
   select_by_id_usuario
     \<lparr>turnos = [\<lparr>id_pk = 1, id_usuario = ''u1'', nombre = ''Ann'', solicitud = ''Q1'',
                  ticket = ''T-0001'', fecha = 1\<rparr>], turnos_id_seq = 1\<rparr> ''u1'' =
     [\<lparr>id_pk = 1, id_usuario = ''u1'', nombre = ''Ann'', solicitud = ''Q1'',
        ticket = ''T-0001'', fecha = 1\<rparr>]"
  by code_simp

text \<open>
  C6. \<open>POST /turno\<close> answers 400 when \<open>id_usuario\<close>, \<open>nombre\<close> or \<open>solicitud\<close> is absent or
  empty, and \<open>PUT /turno/:id\<close> answers 400 when \<open>nombre\<close> or \<open>solicitud\<close> is; both leave the
  database as it was.
\<close>

theorem validation_before_any_change:
  "(body_id_usuario rq \<in> {None, Some []} \<or> body_nombre rq \<in> {None, Some []} \<or>
    body_solicitud rq \<in> {None, Some []} \<longrightarrow>
      post_turno rq now db = (db, \<lparr>status = 400, payload = Error
        ''Faltan datos requeridos: id_usuario, nombre y solicitud son obligatorios''\<rparr>)) \<and>
   (body_nombre rq \<in> {None, Some []} \<or> body_solicitud rq \<in> {None, Some []} \<longrightarrow>
      put_turno int4 i rq db = (db, \<lparr>status = 400, payload = Error
        ''Faltan datos: nombre y solicitud son obligatorios''\<rparr>))"
proof -
  have f: "v \<in> {None, Some []} \<longleftrightarrow> falsy v" for v
    by (cases v) (auto simp: falsy_simps)
  show ?thesis
    unfolding f using post_turno_falta [of rq now db] put_turno_falta [of rq int4 i db]
    by (simp add: status_json_def)
qed

theorem validation_before_any_change_witness:
  "body_nombre \<lparr>protocol = ''http'', host = ''h'', body_id_usuario = Some ''u1'',
      body_nombre = None, body_solicitud = Some []\<rparr> \<in> {None, Some []} \<and>
   post_turno \<lparr>protocol = ''http'', host = ''h'', body_id_usuario = Some ''u1'',
      body_nombre = None, body_solicitud = Some []\<rparr> 3 vacia =
     (vacia, \<lparr>status = 400, payload = Error
        ''Faltan datos requeridos: id_usuario, nombre y solicitud son obligatorios''\<rparr>) \<and>
   put_turno int4in_decimal ''1'' \<lparr>protocol = ''http'', host = ''h'', body_id_usuario = Some ''u1'',
      body_nombre = None, body_solicitud = Some []\<rparr> vacia =
     (vacia, \<lparr>status = 400, payload = Error
        ''Faltan datos: nombre y solicitud son obligatorios''\<rparr>)"
  using validation_before_any_change [of "\<lparr>protocol = ''http'', host = ''h'',
      body_id_usuario = Some ''u1'', body_nombre = None, body_solicitud = Some []\<rparr>" 3 vacia
      int4in_decimal "''1''"]
  by simp

text \<open>
  C7 (amended). For an \<open>:id\<close> that the database reads as an integer, \<open>DELETE /turno/:id\<close>
  answers 404 when no row has that \<open>id\<close>, and leaves the database as it was. When a row has
  it, on a table that satisfies its schema, the answer carries that row, and from then on,
  whatever requests the service handles, \<open>GET /turno/:id/pdf\<close> for that \<open>id\<close> answers 404:
  the sequence never hands the \<open>id\<close> out again. For an \<open>:id\<close> that the database does not
  read as an integer, \<open>DELETE /turno/:id\<close> answers 500 and leaves the database as it was.
\<close>

theorem delete_turno_id_not_found_or_gone:
  "(int4 jtxt = Some j \<and> j \<notin> set (map id_pk (turnos db)) \<longrightarrow>
      delete_turno_id int4 jtxt db =
        (db, \<lparr>status = 404, payload = Error ''Turno no encontrado''\<rparr>)) \<and>
   (int4 ktxt = None \<longrightarrow>
      delete_turno_id int4 ktxt db =
        (db, \<lparr>status = 500, payload = Error ''Error al eliminar turno''\<rparr>)) \<and>
   (db_inv db \<and> int4 itxt = Some i \<and> i \<in> set (map id_pk (turnos db)) \<longrightarrow>
      (\<exists>t. List.find (\<lambda>t. id_pk t = i) (turnos db) = Some t \<and>
           snd (delete_turno_id int4 itxt db) =
             json (Mensaje ''Turno eliminado correctamente'' t) \<and>
           (\<forall>rs idt. int4 idt = Some i \<longrightarrow>
              snd (get_turno_pdf int4 idt (fst (run int4 rs (fst (delete_turno_id int4 itxt db))))) =
              \<lparr>status = 404, payload = Error ''Turno no encontrado''\<rparr>)))"
proof (intro conjI impI)
  assume "int4 jtxt = Some j \<and> j \<notin> set (map id_pk (turnos db))"
  then show "delete_turno_id int4 jtxt db =
      (db, \<lparr>status = 404, payload = Error ''Turno no encontrado''\<rparr>)"
    by (simp add: delete_turno_id_ausente status_json_def)
next
  assume "int4 ktxt = None"
  then show "delete_turno_id int4 ktxt db =
      (db, \<lparr>status = 500, payload = Error ''Error al eliminar turno''\<rparr>)"
    by (simp add: delete_turno_id_rechazado status_json_def)
next
  assume a: "db_inv db \<and> int4 itxt = Some i \<and> i \<in> set (map id_pk (turnos db))"
  then obtain t rest where sel: "filter (\<lambda>t. id_pk t = i) (turnos db) = t # rest"
    by (blast elim: filter_some)
  then have f: "List.find (\<lambda>t. id_pk t = i) (turnos db) = Some t"
    by (rule find_filter_hd)
  from a sel have d: "snd (delete_turno_id int4 itxt db) =
      json (Mensaje ''Turno eliminado correctamente'' t)"
    by (simp add: delete_turno_id_presente)
  from a have "estable i (fst (delete_turno_id int4 itxt db))"
    by (simp add: estable_def fst_delete_turno_id db_inv_delete_turno retirado_after_delete)
  then have "estable i (fst (run int4 rs (fst (delete_turno_id int4 itxt db))))" for rs
    by (rule estable_run)
  then have "int4 idt = Some i \<longrightarrow>
      snd (get_turno_pdf int4 idt (fst (run int4 rs (fst (delete_turno_id int4 itxt db))))) =
      \<lparr>status = 404, payload = Error ''Turno no encontrado''\<rparr>" for rs idt
    by (simp add: estable_def retirado_def get_turno_pdf_ausente status_json_def)
  with f d show "\<exists>t. List.find (\<lambda>t. id_pk t = i) (turnos db) = Some t \<and>
      snd (delete_turno_id int4 itxt db) = json (Mensaje ''Turno eliminado correctamente'' t) \<and>
      (\<forall>rs idt. int4 idt = Some i \<longrightarrow>
         snd (get_turno_pdf int4 idt (fst (run int4 rs (fst (delete_turno_id int4 itxt db))))) =
         \<lparr>status = 404, payload = Error ''Turno no encontrado''\<rparr>)"
    by blast
qed

theorem delete_turno_id_not_found_or_gone_witness:
  "int4in_decimal ''999'' = Some 999 \<and> int4in_decimal ''abc'' = None \<and>
   int4in_decimal ''1'' = Some 1 \<and> int4in_decimal ''01'' = Some 1 \<and>
   999 \<notin> set (map id_pk (turnos
     \<lparr>turnos = [\<lparr>id_pk = 1, id_usuario = ''u1'', nombre = ''Ann'', solicitud = ''Q1'',
                  ticket = ''T-0001'', fecha = 5\<rparr>,
                \<lparr>id_pk = 2, id_usuario = ''u2'', nombre = ''Cy'', solicitud = ''Q2'',
                  ticket = ''T-0002'', fecha = 6\<rparr>], turnos_id_seq = 2\<rparr>)) \<and>
   db_inv
     \<lparr>turnos = [\<lparr>id_pk = 1, id_usuario = ''u1'', nombre = ''Ann'', solicitud = ''Q1'',
                  ticket = ''T-0001'', fecha = 5\<rparr>,
                \<lparr>id_pk = 2, id_usuario = ''u2'', nombre = ''Cy'', solicitud = ''Q2'',
                  ticket = ''T-0002'', fecha = 6\<rparr>], turnos_id_seq = 2\<rparr> \<and>
   1 \<in> set (map id_pk (turnos
     \<lparr>turnos = [\<lparr>id_pk = 1, id_usuario = ''u1'', nombre = ''Ann'', solicitud = ''Q1'',
                  ticket = ''T-0001'', fecha = 5\<rparr>,
                \<lparr>id_pk = 2, id_usuario = ''u2'', nombre = ''Cy'', solicitud = ''Q2'',
                  ticket = ''T-0002'', fecha = 6\<rparr>], turnos_id_seq = 2\<rparr>)) \<and>
   snd (delete_turno_id int4in_decimal ''999''
     \<lparr>turnos = [\<lparr>id_pk = 1, id_usuario = ''u1'', nombre = ''Ann'', solicitud = ''Q1'',
                  ticket = ''T-0001'', fecha = 5\<rparr>,
                \<lparr>id_pk = 2, id_usuario = ''u2'', nombre = ''Cy'', solicitud = ''Q2'',
                  ticket = ''T-0002'', fecha = 6\<rparr>], turnos_id_seq = 2\<rparr>) =
     \<lparr>status = 404, payload = Error ''Turno no encontrado''\<rparr> \<and>
   snd (delete_turno_id int4in_decimal ''abc''
     \<lparr>turnos = [\<lparr>id_pk = 1, id_usuario = ''u1'', nombre = ''Ann'', solicitud = ''Q1'',
                  ticket = ''T-0001'', fecha = 5\<rparr>,
                \<lparr>id_pk = 2, id_usuario = ''u2'', nombre = ''Cy'', solicitud = ''Q2'',
                  ticket = ''T-0002'', fecha = 6\<rparr>], turnos_id_seq = 2\<rparr>) =
     \<lparr>status = 500, payload = Error ''Error al eliminar turno''\<rparr> \<and>
   snd (delete_turno_id int4in_decimal ''1''
     \<lparr>turnos = [\<lparr>id_pk = 1, id_usuario = ''u1'', nombre = ''Ann'', solicitud = ''Q1'',
                  ticket = ''T-0001'', fecha = 5\<rparr>,
                \<lparr>id_pk = 2, id_usuario = ''u2'', nombre = ''Cy'', solicitud = ''Q2'',
                  ticket = ''T-0002'', fecha = 6\<rparr>], turnos_id_seq = 2\<rparr>) =
     json (Mensaje ''Turno eliminado correctamente''
       \<lparr>id_pk = 1, id_usuario = ''u1'', nombre = ''Ann'', solicitud = ''Q1'',
         ticket = ''T-0001'', fecha = 5\<rparr>) \<and>
   (\<forall>rs. snd (get_turno_pdf int4in_decimal ''01'' (fst (run int4in_decimal rs
     (fst (delete_turno_id int4in_decimal ''1''
     \<lparr>turnos = [\<lparr>id_pk = 1, id_usuario = ''u1'', nombre = ''Ann'', solicitud = ''Q1'',
                  ticket = ''T-0001'', fecha = 5\<rparr>,
                \<lparr>id_pk = 2, id_usuario = ''u2'', nombre = ''Cy'', solicitud = ''Q2'',
                  ticket = ''T-0002'', fecha = 6\<rparr>], turnos_id_seq = 2\<rparr>))))) =
      \<lparr>status = 404, payload = Error ''Turno no encontrado''\<rparr>)"
proof -
  let ?r1 = "\<lparr>id_pk = 1, id_usuario = ''u1'', nombre = ''Ann'', solicitud = ''Q1'',
              ticket = ''T-0001'', fecha = 5\<rparr>"
  let ?r2 = "\<lparr>id_pk = 2, id_usuario = ''u2'', nombre = ''Cy'', solicitud = ''Q2'',
              ticket = ''T-0002'', fecha = 6\<rparr>"
  let ?db = "\<lparr>turnos = [?r1, ?r2], turnos_id_seq = 2\<rparr>"
  have p: "int4in_decimal ''999'' = Some 999" "int4in_decimal ''abc'' = None"
    "int4in_decimal ''1'' = Some 1" "int4in_decimal ''01'' = Some 1"
    by code_simp+
  have a: "999 \<notin> set (map id_pk (turnos ?db))" by simp
  have b: "db_inv ?db" by (simp add: db_inv_def)
  have c: "1 \<in> set (map id_pk (turnos ?db))" by simp
  note inst = delete_turno_id_not_found_or_gone
    [where ?int4.0 = int4in_decimal and jtxt = "''999''" and j = 999 and ktxt = "''abc''"
      and itxt = "''1''" and i = 1 and db = ?db]
  from inst p(1) a have d: "snd (delete_turno_id int4in_decimal ''999'' ?db) =
      \<lparr>status = 404, payload = Error ''Turno no encontrado''\<rparr>"
    by simp
  from inst p(2) have e: "snd (delete_turno_id int4in_decimal ''abc'' ?db) =
      \<lparr>status = 500, payload = Error ''Error al eliminar turno''\<rparr>"
    by simp
  from inst p(3) b c obtain t where
    f: "List.find (\<lambda>t. id_pk t = 1) (turnos ?db) = Some t" and
    g: "snd (delete_turno_id int4in_decimal ''1'' ?db) =
          json (Mensaje ''Turno eliminado correctamente'' t)" and
    h: "\<forall>rs idt. int4in_decimal idt = Some 1 \<longrightarrow>
          snd (get_turno_pdf int4in_decimal idt (fst (run int4in_decimal rs
            (fst (delete_turno_id int4in_decimal ''1'' ?db))))) =
          \<lparr>status = 404, payload = Error ''Turno no encontrado''\<rparr>"
    by blast
  from f have t: "t = ?r1" by simp
  from h p(4) have h': "\<forall>rs. snd (get_turno_pdf int4in_decimal ''01'' (fst (run int4in_decimal rs
            (fst (delete_turno_id int4in_decimal ''1'' ?db))))) =
          \<lparr>status = 404, payload = Error ''Turno no encontrado''\<rparr>"
    by blast
  from p a b c d e g [unfolded t] h' show ?thesis by blast
qed

text \<open>
  C7 as stated fails: no row has the \<open>id\<close> 2147483648, nor the \<open>id\<close> \<open>abc\<close>, and the answer
  to \<open>DELETE\<close> is status 500, not 404: the text is no integer of 32 bits, the database
  rejects the statement and the \<open>catch\<close> of the handler answers.
\<close>

theorem delete_turno_id_counterexample:
  "int4in_decimal ''2147483648'' = None \<and>
   delete_turno_id int4in_decimal ''2147483648'' vacia =
     (vacia, \<lparr>status = 500, payload = Error ''Error al eliminar turno''\<rparr>) \<and>
   delete_turno_id int4in_decimal ''abc'' vacia =
     (vacia, \<lparr>status = 500, payload = Error ''Error al eliminar turno''\<rparr>)"
  by code_simp

text \<open>
  C8 (amended). For every row whose \<open>ticket\<close>, \<open>nombre\<close> and \<open>id_usuario\<close> contain no line
  feed, and whose title, subtitle, label line, name line and user line the PDF library
  draws each as the one line it is given, reading the label, the name and the user back
  from the lines of the receipt gives the \<open>ticket\<close>, the \<open>nombre\<close> and the \<open>id_usuario\<close> of
  the row.
\<close>

theorem receipt_round_trip:
  assumes "CHR 0x0A \<notin> set (ticket t)" and "CHR 0x0A \<notin> set (nombre t)"
    and "CHR 0x0A \<notin> set (id_usuario t)"
    and "wrap titulo = [titulo]"
    and "wrap ''Sistema de Turnos ManyChat'' = [''Sistema de Turnos ManyChat'']"
    and "wrap (''Ticket: '' @ ticket t) = [''Ticket: '' @ ticket t]"
    and "wrap (''Nombre: '' @ nombre t) = [''Nombre: '' @ nombre t]"
    and "wrap (''ID Usuario: '' @ id_usuario t) = [''ID Usuario: '' @ id_usuario t]"
  shows "parse_receipt (lineas wrap (comprobante t fechaFormateada generado)) =
    (Some (ticket t), Some (nombre t), Some (id_usuario t))"
proof -
  from assms obtain rest where
    "lineas wrap (comprobante t fechaFormateada generado) =
      titulo # ''Sistema de Turnos ManyChat'' # (''Ticket: '' @ ticket t) #
      (''Nombre: '' @ nombre t) # (''ID Usuario: '' @ id_usuario t) # rest"
    using lineas_comprobante [of t wrap fechaFormateada generado] by blast
  then show ?thesis
    by (simp add: parse_receipt_def titulo_def)
qed

theorem receipt_round_trip_witness:
  "CHR 0x0A \<notin> set ''T-0001'' \<and> CHR 0x0A \<notin> set ''Ann'' \<and> CHR 0x0A \<notin> set ''u1'' \<and>
   parse_receipt (lineas (\<lambda>p. [p])
     (comprobante \<lparr>id_pk = 1, id_usuario = ''u1'', nombre = ''Ann'', solicitud = ''Q1'',
        ticket = ''T-0001'', fecha = 5\<rparr> ''01/02/2026, 10:00'' ''1/2/2026, 10:05:00'')) =
    (Some ''T-0001'', Some ''Ann'', Some ''u1'')"
  using receipt_round_trip [of "\<lparr>id_pk = 1, id_usuario = ''u1'', nombre = ''Ann'',
      solicitud = ''Q1'', ticket = ''T-0001'', fecha = 5\<rparr>" "\<lambda>p. [p]"
      "''01/02/2026, 10:00''" "''1/2/2026, 10:05:00''"]
  by simp

text \<open>
  C8 as stated fails. A \<open>nombre\<close> with a line feed is stored as it is sent; the receipt of
  that row shows it on two lines, and the name read back is the part before the line feed.
\<close>

theorem receipt_round_trip_counterexample:
  "fst (post_turno (pedir ''u1'' (''Ann'' @ [CHR 0x0A] @ ''Bob'') ''Q1'') 5 vacia) =
     \<lparr>turnos = [\<lparr>id_pk = 1, id_usuario = ''u1'', nombre = ''Ann'' @ [CHR 0x0A] @ ''Bob'',
        solicitud = ''Q1'', ticket = ''T-0001'', fecha = 5\<rparr>], turnos_id_seq = 1\<rparr> \<and>
   lineas (\<lambda>p. [p])
     (comprobante \<lparr>id_pk = 1, id_usuario = ''u1'', nombre = ''Ann'' @ [CHR 0x0A] @ ''Bob'',
        solicitud = ''Q1'', ticket = ''T-0001'', fecha = 5\<rparr> ''01/02/2026, 10:00''
        ''1/2/2026, 10:05:00'') =
     [titulo, ''Sistema de Turnos ManyChat'', ''Ticket: T-0001'', ''Nombre: Ann'', ''Bob'',
      ''ID Usuario: u1'', ''Fecha y Hora: 01/02/2026, 10:00'', ''Solicitud:'', ''Q1'', pie,
      ''Generado el 1/2/2026, 10:05:00''] \<and>
   parse_receipt (lineas (\<lambda>p. [p])
     (comprobante \<lparr>id_pk = 1, id_usuario = ''u1'', nombre = ''Ann'' @ [CHR 0x0A] @ ''Bob'',
        solicitud = ''Q1'', ticket = ''T-0001'', fecha = 5\<rparr> ''01/02/2026, 10:00''
        ''1/2/2026, 10:05:00'')) =
    (Some ''T-0001'', Some ''Ann'', Some ''u1'') \<and>
   ''Ann'' \<noteq> ''Ann'' @ [CHR 0x0A] @ ''Bob''"
  by code_simp

text \<open>
  C9. The label \<open>generarTicket\<close> computes is a function of the number of rows alone: two
  databases with the same count get the same label, whatever their rows. So the four
  requests \<open>POST\<close> (u1), \<open>POST\<close> (u2), \<open>DELETE\<close> (id 1), \<open>POST\<close> (u3), handled one after the
  other from the empty table, leave two rows that both carry \<open>T-0002\<close>, in a table that
  satisfies its schema: the schema does not make \<open>ticket\<close> unique.
\<close>

theorem label_from_count_alone:
  "(select_count db = select_count db' \<longrightarrow> generarTicket db = generarTicket db') \<and>
   fst (run int4in_decimal [POST_turno (pedir ''u1'' ''Ann'' ''Q1'') 1,
             POST_turno (pedir ''u2'' ''Bo'' ''Q2'') 2,
             DELETE_turno ''1'',
             POST_turno (pedir ''u3'' ''Cy'' ''Q3'') 3] vacia) =
     \<lparr>turnos = [\<lparr>id_pk = 2, id_usuario = ''u2'', nombre = ''Bo'', solicitud = ''Q2'',
                  ticket = ''T-0002'', fecha = 2\<rparr>,
                \<lparr>id_pk = 3, id_usuario = ''u3'', nombre = ''Cy'', solicitud = ''Q3'',
                  ticket = ''T-0002'', fecha = 3\<rparr>], turnos_id_seq = 3\<rparr> \<and>
   db_inv (fst (run int4in_decimal [POST_turno (pedir ''u1'' ''Ann'' ''Q1'') 1,
             POST_turno (pedir ''u2'' ''Bo'' ''Q2'') 2,
             DELETE_turno ''1'',
             POST_turno (pedir ''u3'' ''Cy'' ''Q3'') 3] vacia)) \<and>
   \<not> distinct (map ticket (turnos (fst (run int4in_decimal
            [POST_turno (pedir ''u1'' ''Ann'' ''Q1'') 1,
             POST_turno (pedir ''u2'' ''Bo'' ''Q2'') 2,
             DELETE_turno ''1'',
             POST_turno (pedir ''u3'' ''Cy'' ''Q3'') 3] vacia))))"
proof -
  let ?rs = "[POST_turno (pedir ''u1'' ''Ann'' ''Q1'') 1,
             POST_turno (pedir ''u2'' ''Bo'' ''Q2'') 2,
             DELETE_turno ''1'',
             POST_turno (pedir ''u3'' ''Cy'' ''Q3'') 3]"
  have a: "select_count db = select_count db' \<longrightarrow> generarTicket db = generarTicket db'"
    by (simp add: generarTicket_def)
  have b: "fst (run int4in_decimal ?rs vacia) =
     \<lparr>turnos = [\<lparr>id_pk = 2, id_usuario = ''u2'', nombre = ''Bo'', solicitud = ''Q2'',
                  ticket = ''T-0002'', fecha = 2\<rparr>,
                \<lparr>id_pk = 3, id_usuario = ''u3'', nombre = ''Cy'', solicitud = ''Q3'',
                  ticket = ''T-0002'', fecha = 3\<rparr>], turnos_id_seq = 3\<rparr>"
    by code_simp
  have c: "db_inv (fst (run int4in_decimal ?rs vacia))"
    using db_inv_vacia by (rule db_inv_run)
  have d: "\<not> distinct (map ticket (turnos (fst (run int4in_decimal ?rs vacia))))"
    unfolding b by simp
  from a b c d show ?thesis by blast
qed

theorem label_from_count_alone_witness:
  "select_count \<lparr>turnos = [\<lparr>id_pk = 1, id_usuario = ''u1'', nombre = ''Ann'',
       solicitud = ''Q1'', ticket = ''T-0001'', fecha = 1\<rparr>], turnos_id_seq = 1\<rparr> =
   select_count \<lparr>turnos = [\<lparr>id_pk = 7, id_usuario = ''u9'', nombre = ''Zoe'',
       solicitud = ''Q9'', ticket = ''T-0042'', fecha = 8\<rparr>], turnos_id_seq = 50\<rparr> \<and>
   generarTicket \<lparr>turnos = [\<lparr>id_pk = 1, id_usuario = ''u1'', nombre = ''Ann'',
       solicitud = ''Q1'', ticket = ''T-0001'', fecha = 1\<rparr>], turnos_id_seq = 1\<rparr> =
   generarTicket \<lparr>turnos = [\<lparr>id_pk = 7, id_usuario = ''u9'', nombre = ''Zoe'',
       solicitud = ''Q9'', ticket = ''T-0042'', fecha = 8\<rparr>], turnos_id_seq = 50\<rparr> \<and>
   generarTicket \<lparr>turnos = [\<lparr>id_pk = 7, id_usuario = ''u9'', nombre = ''Zoe'',
       solicitud = ''Q9'', ticket = ''T-0042'', fecha = 8\<rparr>], turnos_id_seq = 50\<rparr> = ''T-0002''"
proof -
  let ?a = "\<lparr>turnos = [\<lparr>id_pk = 1, id_usuario = ''u1'', nombre = ''Ann'',
       solicitud = ''Q1'', ticket = ''T-0001'', fecha = 1\<rparr>], turnos_id_seq = 1\<rparr>"
  let ?b = "\<lparr>turnos = [\<lparr>id_pk = 7, id_usuario = ''u9'', nombre = ''Zoe'',
       solicitud = ''Q9'', ticket = ''T-0042'', fecha = 8\<rparr>], turnos_id_seq = 50\<rparr>"
  have h: "select_count ?a = select_count ?b" by (simp add: select_count_def)
  have v: "generarTicket ?b = ''T-0002''" by code_simp
  from label_from_count_alone [of ?a ?b] h have "generarTicket ?a = generarTicket ?b" by blast
  with h v show ?thesis by blast
qed

text \<open>
  C10. A request answered with status 400 or 404 leaves the database exactly as it was,
  whichever of the handlers answered it.
\<close>

theorem rejected_request_changes_nothing:
  assumes "handle int4 r db = (db', res)" and "status res = 400 \<or> status res = 404"
  shows "db' = db"
proof (cases r)
  case (POST_turno rq now)
  with assms show ?thesis by (auto dest: post_turno_error_same)
next
  case GET_turnos
  with assms(1) show ?thesis by (simp add: get_turnos_def)
next
  case (GET_turno_pdf i)
  with assms(1) get_turno_pdf_same [of int4 i db] show ?thesis by simp
next
  case (PUT_turno i rq)
  with assms show ?thesis by (auto dest: put_turno_error_same)
next
  case (DELETE_turno i)
  with assms show ?thesis by (auto dest: delete_turno_id_error_same)
qed

theorem rejected_request_changes_nothing_witness:
  "status (snd (handle int4in_decimal (DELETE_turno ''999'')
     \<lparr>turnos = [\<lparr>id_pk = 1, id_usuario = ''u1'', nombre = ''Ann'', solicitud = ''Q1'',
                  ticket = ''T-0001'', fecha = 5\<rparr>], turnos_id_seq = 1\<rparr>)) = 404 \<and>
   fst (handle int4in_decimal (DELETE_turno ''999'')
     \<lparr>turnos = [\<lparr>id_pk = 1, id_usuario = ''u1'', nombre = ''Ann'', solicitud = ''Q1'',
                  ticket = ''T-0001'', fecha = 5\<rparr>], turnos_id_seq = 1\<rparr>) =
     \<lparr>turnos = [\<lparr>id_pk = 1, id_usuario = ''u1'', nombre = ''Ann'', solicitud = ''Q1'',
                  ticket = ''T-0001'', fecha = 5\<rparr>], turnos_id_seq = 1\<rparr>"
proof -
  let ?db = "\<lparr>turnos = [\<lparr>id_pk = 1, id_usuario = ''u1'', nombre = ''Ann'', solicitud = ''Q1'',
                  ticket = ''T-0001'', fecha = 5\<rparr>], turnos_id_seq = 1\<rparr>"
  let ?r = "DELETE_turno ''999''"
  have a: "handle int4in_decimal ?r ?db =
      (fst (handle int4in_decimal ?r ?db), snd (handle int4in_decimal ?r ?db))"
    by simp
  have b: "status (snd (handle int4in_decimal ?r ?db)) = 404"
    by code_simp
  from b have c: "status (snd (handle int4in_decimal ?r ?db)) = 400 \<or>
      status (snd (handle int4in_decimal ?r ?db)) = 404" ..
  from rejected_request_changes_nothing [OF a c] b show ?thesis by (simp only: simp_thms)
qed

end
